theory Spec2Isabelle
  imports Main "HOL-Library.AList"
begin

section \<open>JavaScript values read by compareAPIs.js\<close>

text \<open>
  The two arguments of the comparator are JavaScript values, in practice the result of
  \<^verbatim>\<open>JSON.parse\<close>. The model has the values the code can meet there, except numbers and
  arrays: \<^verbatim>\<open>undefined\<close>, \<^verbatim>\<open>null\<close>, booleans, strings and plain objects. No value
  of the model is a function.

  An object is its list of own enumerable properties in the order \<^verbatim>\<open>Object.keys\<close>
  enumerates them (a JavaScript object never has two properties of one name), together
  with the identity of the object: \<^verbatim>\<open>===\<close> on two objects compares identities, not
  contents. The comparator only reads its arguments, so an object's content never
  changes during a call.
\<close>

datatype jsval =
    JUndefined
  | JNull
  | JBool bool
  | JStr string
  | JObj nat "(string \<times> jsval) list"

datatype error = TypeError

record problem =
  message :: string

text \<open>\<^verbatim>\<open>a === b\<close>\<close>

fun strict_eq :: "jsval \<Rightarrow> jsval \<Rightarrow> bool" where
  "strict_eq (JObj a _) (JObj b _) = (a = b)"
| "strict_eq x y = (x = y)"

text \<open>
  The conversion to string that a template literal \<^verbatim>\<open>`${v}`\<close> applies. For an object
  it calls the method \<^verbatim>\<open>toString\<close>, then \<^verbatim>\<open>valueOf\<close>, and takes the first result
  that is not an object. A plain object inherits a \<^verbatim>\<open>toString\<close> that returns
  \<^verbatim>\<open>[object Object]\<close>. An own property \<^verbatim>\<open>toString\<close> hides it; its value is not a
  function, so it is not called, \<^verbatim>\<open>valueOf\<close> (inherited, or an own property that is
  not a function either) gives no primitive value, and the conversion throws a
  TypeError.
\<close>

fun ToString :: "jsval \<Rightarrow> error + string" where
  "ToString JUndefined = Inr ''undefined''"
| "ToString JNull = Inr ''null''"
| "ToString (JBool b) = Inr (if b then ''true'' else ''false'')"
| "ToString (JStr s) = Inr s"
| "ToString (JObj _ props) =
     (case map_of props ''toString'' of
        None \<Rightarrow> Inr ''[object Object]''
      | Some _ \<Rightarrow> Inl TypeError)"

text \<open>The decimal numeral of an array index, as a property name.\<close>

fun decimal :: "nat \<Rightarrow> string" where
  "decimal n =
     (if n < 10 then [char_of (48 + n)]
      else decimal (n div 10) @ [char_of (48 + n mod 10)])"

declare decimal.simps [simp del]

text \<open>
  \<^verbatim>\<open>Object.keys(v)\<close>: a TypeError on \<^verbatim>\<open>undefined\<close> and \<^verbatim>\<open>null\<close>; a boolean is
  wrapped in an object with no own property, a string in one whose own enumerable
  properties are its indices.
\<close>

fun Object_keys :: "jsval \<Rightarrow> error + string list" where
  "Object_keys JUndefined = Inl TypeError"
| "Object_keys JNull = Inl TypeError"
| "Object_keys (JBool _) = Inr []"
| "Object_keys (JStr s) = Inr (map decimal [0..<length s])"
| "Object_keys (JObj _ props) = Inr (map fst props)"

text \<open>
  \<^verbatim>\<open>v[k]\<close>: a TypeError on \<^verbatim>\<open>undefined\<close> and \<^verbatim>\<open>null\<close>, the own property when there
  is one, \<^verbatim>\<open>undefined\<close> otherwise. Properties inherited from a prototype are left out:
  the comparator reads the name \<^verbatim>\<open>phetioElements\<close>, the eight metadata names, and
  names that \<^verbatim>\<open>Object.keys\<close> returned for both mappings, which are own properties.
\<close>

fun get :: "jsval \<Rightarrow> string \<Rightarrow> error + jsval" where
  "get JUndefined k = Inl TypeError"
| "get JNull k = Inl TypeError"
| "get (JBool _) k = Inr JUndefined"
| "get (JStr s) k =
     (case filter (\<lambda>i. decimal i = k) [0..<length s] of
        [] \<Rightarrow> Inr JUndefined
      | i # _ \<Rightarrow> Inr (JStr [s ! i]))"
| "get (JObj _ props) k =
     (case map_of props k of
        None \<Rightarrow> Inr JUndefined
      | Some v \<Rightarrow> Inr v)"

text \<open>Sequencing of two steps, the first of which may throw.\<close>

fun andThen :: "error + 'a \<Rightarrow> ('a \<Rightarrow> error + 'b) \<Rightarrow> error + 'b" where
  "andThen (Inl e) f = Inl e"
| "andThen (Inr x) f = f x"

section \<open>Array helpers\<close>

text \<open>\<^verbatim>\<open>xs.includes(x)\<close>\<close>

definition includes_str :: "string list \<Rightarrow> string \<Rightarrow> bool" where
  "includes_str xs x = (x \<in> set xs)"

text \<open>\<^verbatim>\<open>_.isEqual(xs, ys)\<close> on two arrays of strings\<close>

definition isEqual :: "string list \<Rightarrow> string list \<Rightarrow> bool" where
  "isEqual xs ys = (xs = ys)"

text \<open>\<^verbatim>\<open>xs.join(sep)\<close>\<close>

fun join :: "string \<Rightarrow> string list \<Rightarrow> string" where
  "join sep [] = []"
| "join sep [x] = x"
| "join sep (x # y # ys) = x @ sep @ join sep (y # ys)"

text \<open>\<^verbatim>\<open>xs.forEach(f)\<close>, where the callback updates the state and may throw\<close>

fun forEach :: "('a \<Rightarrow> 's \<Rightarrow> error + 's) \<Rightarrow> 'a list \<Rightarrow> 's \<Rightarrow> error + 's" where
  "forEach f [] s = Inr s"
| "forEach f (x # xs) s = andThen (f x s) (forEach f xs)"

section \<open>compareAPIs.js\<close>

text \<open>The string \<^verbatim>\<open>'\n\t'\<close>\<close>

definition nl_tab :: string where
  "nl_tab = [CHR 0x0A, CHR 0x09]"

text \<open>\<^verbatim>\<open>`${phetioID}.${metadataKey} changed from ${oldValue} to ${newValue}`\<close>\<close>

definition changed_message :: "string \<Rightarrow> string \<Rightarrow> jsval \<Rightarrow> jsval \<Rightarrow> error + string" where
  "changed_message phetioID metadataKey oldValue newValue =
     andThen (ToString oldValue) (\<lambda>oldText.
     andThen (ToString newValue) (\<lambda>newText.
       Inr (phetioID @ ''.'' @ metadataKey @ '' changed from '' @ oldText
              @ '' to '' @ newText)))"

text \<open>\<^verbatim>\<open>`Second API missing elements:\n\t${missingFrom2.join( '\n\t' )}`\<close>\<close>

definition missing_message :: "string list \<Rightarrow> string" where
  "missing_message missingFrom2 =
     ''Second API missing elements:'' @ nl_tab @ join nl_tab missingFrom2"

text \<open>\<^verbatim>\<open>api.phetioElements[ phetioID ][ metadataKey ]\<close>\<close>

definition metadata_value :: "jsval \<Rightarrow> string \<Rightarrow> string \<Rightarrow> error + jsval" where
  "metadata_value api phetioID metadataKey =
     andThen (get api ''phetioElements'') (\<lambda>elements.
     andThen (get elements phetioID) (\<lambda>element.
     get element metadataKey))"

text \<open>
  The closure \<^verbatim>\<open>reportDifferences\<close>, with the variables it captures (\<^verbatim>\<open>api1\<close>,
  \<^verbatim>\<open>api2\<close>, \<^verbatim>\<open>phetioID\<close>) as arguments and the array \<^verbatim>\<open>problems\<close> it pushes to
  passed in and returned. A call with one argument has \<^verbatim>\<open>invalidNewValue\<close> undefined.
  The message is built before the push, so a conversion that throws leaves the call
  without a result.
\<close>

definition reportDifferences ::
  "jsval \<Rightarrow> jsval \<Rightarrow> string \<Rightarrow> string \<Rightarrow> jsval \<Rightarrow> problem list \<Rightarrow> error + problem list" where
  "reportDifferences api1 api2 phetioID metadataKey invalidNewValue problems =
     andThen (metadata_value api1 phetioID metadataKey) (\<lambda>oldValue.
     andThen (metadata_value api2 phetioID metadataKey) (\<lambda>newValue.
       if \<not> strict_eq oldValue newValue then
         if strict_eq invalidNewValue JUndefined then
           andThen (changed_message phetioID metadataKey oldValue newValue) (\<lambda>rendered.
             Inr (problems @ [\<lparr>message = rendered\<rparr>]))
         else
           if strict_eq newValue invalidNewValue then
             andThen (changed_message phetioID metadataKey oldValue newValue) (\<lambda>rendered.
               Inr (problems @ [\<lparr>message = rendered\<rparr>]))
           else Inr problems
       else Inr problems))"

text \<open>The body of the callback given to \<^verbatim>\<open>elements1.forEach\<close>.\<close>

definition checkElement ::
  "jsval \<Rightarrow> jsval \<Rightarrow> string list \<Rightarrow> string \<Rightarrow> problem list \<Rightarrow> error + problem list" where
  "checkElement api1 api2 elements2 phetioID problems =
     (if includes_str elements2 phetioID then
        andThen (reportDifferences api1 api2 phetioID ''phetioTypeName'' JUndefined problems) (\<lambda>problems.
        andThen (reportDifferences api1 api2 phetioID ''phetioEventType'' JUndefined problems) (\<lambda>problems.
        andThen (reportDifferences api1 api2 phetioID ''phetioPlayback'' JUndefined problems) (\<lambda>problems.
        andThen (reportDifferences api1 api2 phetioID ''phetioDynamicElement'' JUndefined problems) (\<lambda>problems.
        andThen (reportDifferences api1 api2 phetioID ''phetioIsArchetype'' JUndefined problems) (\<lambda>problems.
        andThen (reportDifferences api1 api2 phetioID ''phetioArchetypePhetioID'' JUndefined problems) (\<lambda>problems.
        andThen (reportDifferences api1 api2 phetioID ''phetioState'' (JBool False) problems) (\<lambda>problems.
        reportDifferences api1 api2 phetioID ''phetioReadOnly'' (JBool True) problems)))))))
      else Inr problems)"

text \<open>The first block: the problem pushed for the elements the second API misses.\<close>

definition checkMissing :: "string list \<Rightarrow> string list \<Rightarrow> problem list \<Rightarrow> problem list" where
  "checkMissing elements1 elements2 problems =
     (if \<not> isEqual elements1 elements2 then
        (let missingFrom2 = filter (\<lambda>e. \<not> includes_str elements2 e) elements1 in
         if length missingFrom2 > 0 then
           problems @ [\<lparr>message = missing_message missingFrom2\<rparr>]
         else problems)
      else problems)"

text \<open>The exported function.\<close>

definition compareAPIs :: "jsval \<Rightarrow> jsval \<Rightarrow> error + problem list" where
  "compareAPIs api1 api2 =
     (let problems = [] in
      andThen (get api1 ''phetioElements'') (\<lambda>elements.
      andThen (Object_keys elements) (\<lambda>elements1.
      andThen (get api2 ''phetioElements'') (\<lambda>elements.
      andThen (Object_keys elements) (\<lambda>elements2.
        let problems = checkMissing elements1 elements2 problems in
        forEach (checkElement api1 api2 elements2) elements1 problems)))))"

section \<open>Vocabulary of the properties\<close>

text \<open>\<^verbatim>\<open>Object.keys( api.phetioElements )\<close>, as both first statements evaluate it.\<close>

definition elementIDs :: "jsval \<Rightarrow> error + string list" where
  "elementIDs api = andThen (get api ''phetioElements'') Object_keys"

text \<open>The identifiers of a description: the keys above, none when they cannot be read.\<close>

definition identifiers :: "jsval \<Rightarrow> string list" where
  "identifiers api = (case elementIDs api of Inl _ \<Rightarrow> [] | Inr ids \<Rightarrow> ids)"

text \<open>
  The metadata value \<^verbatim>\<open>api.phetioElements[ phetioID ][ metadataKey ]\<close> of a description
  where that expression does not throw.
\<close>

definition metadata :: "jsval \<Rightarrow> string \<Rightarrow> string \<Rightarrow> jsval" where
  "metadata api phetioID metadataKey =
     (case metadata_value api phetioID metadataKey of Inl _ \<Rightarrow> JUndefined | Inr v \<Rightarrow> v)"

fun isObject :: "jsval \<Rightarrow> bool" where
  "isObject (JObj _ _) = True"
| "isObject _ = False"

text \<open>
  A well-formed API description: an object whose property \<^verbatim>\<open>phetioElements\<close> is an
  object (the mapping) that maps every identifier to an object (the metadata record).
\<close>

definition wellFormed :: "jsval \<Rightarrow> bool" where
  "wellFormed api =
     (case get api ''phetioElements'' of
        Inr (JObj _ props) \<Rightarrow> list_all (\<lambda>(phetioID, element). isObject element) props
      | _ \<Rightarrow> False)"

text \<open>\<^verbatim>\<open>undefined\<close> or \<^verbatim>\<open>null\<close>: the values whose properties cannot be read.\<close>

definition nullish :: "jsval \<Rightarrow> bool" where
  "nullish v = (v = JUndefined \<or> v = JNull)"

text \<open>The description has no mapping: reading the keys of \<^verbatim>\<open>api.phetioElements\<close> throws.\<close>

definition mappingAbsent :: "jsval \<Rightarrow> bool" where
  "mappingAbsent api =
     (case get api ''phetioElements'' of Inl _ \<Rightarrow> True | Inr elements \<Rightarrow> nullish elements)"

text \<open>
  The element \<^verbatim>\<open>api.phetioElements[ phetioID ]\<close> cannot be read, or is \<^verbatim>\<open>undefined\<close>
  or \<^verbatim>\<open>null\<close>: reading a metadata value of it throws.
\<close>

definition elementNullish :: "jsval \<Rightarrow> string \<Rightarrow> bool" where
  "elementNullish api phetioID =
     (case andThen (get api ''phetioElements'') (\<lambda>elements. get elements phetioID) of
        Inl _ \<Rightarrow> True
      | Inr element \<Rightarrow> nullish element)"

text \<open>
  The calls of \<^verbatim>\<open>reportDifferences\<close> in the order of the source: the metadata key and
  the second argument (\<^verbatim>\<open>undefined\<close> when the call has none).
\<close>

definition metadataChecks :: "(string \<times> jsval) list" where
  "metadataChecks =
     [(''phetioTypeName'', JUndefined),
      (''phetioEventType'', JUndefined),
      (''phetioPlayback'', JUndefined),
      (''phetioDynamicElement'', JUndefined),
      (''phetioIsArchetype'', JUndefined),
      (''phetioArchetypePhetioID'', JUndefined),
      (''phetioState'', JBool False),
      (''phetioReadOnly'', JBool True)]"

text \<open>The six keys checked for any change.\<close>

definition nondirectionalKeys :: "string list" where
  "nondirectionalKeys =
     [''phetioTypeName'', ''phetioEventType'', ''phetioPlayback'', ''phetioDynamicElement'',
      ''phetioIsArchetype'', ''phetioArchetypePhetioID'']"

text \<open>The keys that the comment at the end of the callback lists as non-breaking.\<close>

definition excludedKeys :: "string list" where
  "excludedKeys = [''phetioFeatured'', ''phetioStudioControl'', ''phetioHighFrequency'']"

text \<open>A value that the template literal cannot convert: an object with an own \<^verbatim>\<open>toString\<close>.\<close>

fun unprintable :: "jsval \<Rightarrow> bool" where
  "unprintable (JObj _ props) = (map_of props ''toString'' \<noteq> None)"
| "unprintable _ = False"

text \<open>
  The check of one metadata key reports: the value changed and, for a call with a second
  argument, the new value is that argument.
\<close>

definition checkFires :: "jsval \<Rightarrow> jsval \<Rightarrow> jsval \<Rightarrow> bool" where
  "checkFires invalidNewValue oldValue newValue =
     (\<not> strict_eq oldValue newValue \<and>
      (invalidNewValue = JUndefined \<or> strict_eq newValue invalidNewValue))"

text \<open>
  The problem of one metadata key of one element, as a list of none or one; a TypeError
  when the check reports and its message cannot be built.
\<close>

definition reported ::
  "string \<Rightarrow> string \<Rightarrow> jsval \<Rightarrow> jsval \<Rightarrow> jsval \<Rightarrow> error + problem list" where
  "reported phetioID metadataKey invalidNewValue oldValue newValue =
     (if checkFires invalidNewValue oldValue newValue then
        andThen (changed_message phetioID metadataKey oldValue newValue) (\<lambda>rendered.
          Inr [\<lparr>message = rendered\<rparr>])
      else Inr [])"

text \<open>
  The results of a sequence of steps, one after the other: the lists they return,
  appended in their order, or the TypeError of the first step that throws.
\<close>

fun collect :: "(error + 'a list) list \<Rightarrow> error + 'a list" where
  "collect [] = Inr []"
| "collect (r # rs) = andThen r (\<lambda>xs. andThen (collect rs) (\<lambda>ys. Inr (xs @ ys)))"

text \<open>The problems of one element, key by key.\<close>

definition elementProblems :: "jsval \<Rightarrow> jsval \<Rightarrow> string \<Rightarrow> error + problem list" where
  "elementProblems api1 api2 phetioID =
     collect (map (\<lambda>(metadataKey, invalidNewValue).
                     reported phetioID metadataKey invalidNewValue
                       (metadata api1 phetioID metadataKey) (metadata api2 phetioID metadataKey))
                  metadataChecks)"

text \<open>
  Building the message of some check of the element throws: the check reports and the
  old or the new value cannot be converted.
\<close>

definition messageThrows :: "jsval \<Rightarrow> jsval \<Rightarrow> string \<Rightarrow> bool" where
  "messageThrows api1 api2 phetioID =
     list_ex (\<lambda>(metadataKey, invalidNewValue).
                checkFires invalidNewValue
                  (metadata api1 phetioID metadataKey) (metadata api2 phetioID metadataKey) \<and>
                (unprintable (metadata api1 phetioID metadataKey) \<or>
                 unprintable (metadata api2 phetioID metadataKey)))
             metadataChecks"

text \<open>A primitive value: any value but an object.\<close>

fun isPrimitive :: "jsval \<Rightarrow> bool" where
  "isPrimitive (JObj _ _) = False"
| "isPrimitive _ = True"

text \<open>
  A description whose metadata records are flat: the mapping is an object, every
  element of it is an object, and every value in an element is primitive.
\<close>

definition primitiveMetadata :: "jsval \<Rightarrow> bool" where
  "primitiveMetadata api =
     (case get api ''phetioElements'' of
        Inr (JObj _ props) \<Rightarrow>
          list_all (\<lambda>(phetioID, element).
             case element of
               JObj _ attributes \<Rightarrow> list_all (\<lambda>(metadataKey, v). isPrimitive v) attributes
             | _ \<Rightarrow> False) props
      | _ \<Rightarrow> False)"

text \<open>The identifiers of the first list that the second does not have.\<close>

definition removedIDs :: "string list \<Rightarrow> string list \<Rightarrow> string list" where
  "removedIDs elements1 elements2 = filter (\<lambda>e. e \<notin> set elements2) elements1"

text \<open>The identifiers of the first list that the second has too.\<close>

definition sharedIDs :: "string list \<Rightarrow> string list \<Rightarrow> string list" where
  "sharedIDs elements1 elements2 = filter (\<lambda>e. e \<in> set elements2) elements1"

text \<open>The problem of the removed identifiers, as a list of none or one.\<close>

definition missingProblems :: "string list \<Rightarrow> string list \<Rightarrow> problem list" where
  "missingProblems elements1 elements2 =
     (if removedIDs elements1 elements2 = [] then []
      else [\<lparr>message = missing_message (removedIDs elements1 elements2)\<rparr>])"

text \<open>
  The comparator without the guard \<^verbatim>\<open>!_.isEqual( elements1, elements2 )\<close>: the
  identifiers missing from the second API are always computed.
\<close>

definition checkMissing_unguarded ::
  "string list \<Rightarrow> string list \<Rightarrow> problem list \<Rightarrow> problem list" where
  "checkMissing_unguarded elements1 elements2 problems =
     (let missingFrom2 = filter (\<lambda>e. \<not> includes_str elements2 e) elements1 in
      if length missingFrom2 > 0 then
        problems @ [\<lparr>message = missing_message missingFrom2\<rparr>]
      else problems)"

definition compareAPIs_unguarded :: "jsval \<Rightarrow> jsval \<Rightarrow> error + problem list" where
  "compareAPIs_unguarded api1 api2 =
     (let problems = [] in
      andThen (get api1 ''phetioElements'') (\<lambda>elements.
      andThen (Object_keys elements) (\<lambda>elements1.
      andThen (get api2 ''phetioElements'') (\<lambda>elements.
      andThen (Object_keys elements) (\<lambda>elements2.
        let problems = checkMissing_unguarded elements1 elements2 problems in
        forEach (checkElement api1 api2 elements2) elements1 problems)))))"

text \<open>
  The value after the assignment \<^verbatim>\<open>v[k] = x\<close> on an object: the property is replaced
  where it is, or added after the others. Other values are left as they are.
\<close>

fun setProperty :: "jsval \<Rightarrow> string \<Rightarrow> jsval \<Rightarrow> jsval" where
  "setProperty (JObj a props) k x = JObj a (AList.update k x props)"
| "setProperty v k x = v"

text \<open>The value with its property \<^verbatim>\<open>k\<close>, when it has one, changed by \<^verbatim>\<open>f\<close>.\<close>

fun mapProperty :: "string \<Rightarrow> (jsval \<Rightarrow> jsval) \<Rightarrow> jsval \<Rightarrow> jsval" where
  "mapProperty k f (JObj a props) = JObj a (AList.map_entry k f props)"
| "mapProperty k f v = v"

text \<open>
  The description with the metadata \<^verbatim>\<open>metadataKey\<close> of its element \<^verbatim>\<open>phetioID\<close> set
  to \<^verbatim>\<open>x\<close>; the description itself when it has no such element.
\<close>

definition setMetadata :: "jsval \<Rightarrow> string \<Rightarrow> string \<Rightarrow> jsval \<Rightarrow> jsval" where
  "setMetadata api phetioID metadataKey x =
     mapProperty ''phetioElements''
       (mapProperty phetioID (\<lambda>element. setProperty element metadataKey x)) api"

text \<open>The description with the element \<^verbatim>\<open>phetioID\<close> of its mapping set to \<^verbatim>\<open>element\<close>.\<close>

definition setElement :: "jsval \<Rightarrow> string \<Rightarrow> jsval \<Rightarrow> jsval" where
  "setElement api phetioID element =
     mapProperty ''phetioElements'' (\<lambda>elements. setProperty elements phetioID element) api"

section \<open>Example descriptions\<close>

text \<open>
  An old and a new version of one API. Between them \<^verbatim>\<open>sim.gone\<close> is removed and
  \<^verbatim>\<open>sim.added\<close> is added, the other identifiers are listed in another order, and the
  metadata of \<^verbatim>\<open>sim.a\<close>, \<^verbatim>\<open>sim.b\<close>, \<^verbatim>\<open>sim.c\<close> and \<^verbatim>\<open>sim.d\<close> changes.
\<close>

definition exampleOld :: jsval where
  "exampleOld =
     JObj 1
       [(''phetioElements'', JObj 2
          [(''sim.a'', JObj 3
             [(''phetioTypeName'', JStr ''T1''),
              (''phetioState'', JBool True),
              (''phetioReadOnly'', JBool False),
              (''phetioFeatured'', JBool True)]),
           (''sim.b'', JObj 4
             [(''phetioState'', JBool False),
              (''phetioReadOnly'', JBool True)]),
           (''sim.c'', JObj 5 []),
           (''sim.d'', JObj 8 []),
           (''sim.gone'', JObj 6 [(''phetioTypeName'', JStr ''T'')])]),
        (''phetioTypes'', JObj 7 [])]"

definition exampleNew :: jsval where
  "exampleNew =
     JObj 11
       [(''phetioElements'', JObj 12
          [(''sim.b'', JObj 13
             [(''phetioState'', JBool True),
              (''phetioReadOnly'', JBool False)]),
           (''sim.a'', JObj 14
             [(''phetioTypeName'', JStr ''T2''),
              (''phetioState'', JBool False),
              (''phetioReadOnly'', JBool True),
              (''phetioFeatured'', JBool False)]),
           (''sim.c'', JObj 15
             [(''phetioEventType'', JStr ''MODEL''),
              (''phetioState'', JBool False)]),
           (''sim.d'', JObj 17 [(''phetioState'', JBool True)]),
           (''sim.added'', JObj 16 [(''phetioTypeName'', JStr ''N'')])])]"

text \<open>The old version with its identifiers listed in the opposite order.\<close>

definition exampleReordered :: jsval where
  "exampleReordered =
     JObj 21
       [(''phetioElements'', JObj 22
          [(''sim.gone'', JObj 26 [(''phetioTypeName'', JStr ''T'')]),
           (''sim.d'', JObj 27 []),
           (''sim.c'', JObj 25 []),
           (''sim.b'', JObj 24
             [(''phetioState'', JBool False),
              (''phetioReadOnly'', JBool True)]),
           (''sim.a'', JObj 23
             [(''phetioTypeName'', JStr ''T1''),
              (''phetioState'', JBool True),
              (''phetioReadOnly'', JBool False),
              (''phetioFeatured'', JBool True)])])]"


definition emptyAPI :: jsval where
  "emptyAPI = JObj 41 [(''phetioElements'', JObj 42 [])]"



text \<open>
  Two versions of a description with one element, whose six metadata values that are
  checked for any change are of every kind of value and all change.
\<close>

definition valuesOld :: jsval where
  "valuesOld =
     JObj 71
       [(''phetioElements'', JObj 72
          [(''sim.v'', JObj 73
             [(''phetioTypeName'', JStr ''T1''),
              (''phetioPlayback'', JBool True),
              (''phetioDynamicElement'', JBool False),
              (''phetioIsArchetype'', JNull),
              (''phetioArchetypePhetioID'', JObj 74 [])])])]"

definition valuesNew :: jsval where
  "valuesNew =
     JObj 81
       [(''phetioElements'', JObj 82
          [(''sim.v'', JObj 83
             [(''phetioTypeName'', JStr ''T2''),
              (''phetioEventType'', JStr ''MODEL''),
              (''phetioPlayback'', JBool False),
              (''phetioDynamicElement'', JNull),
              (''phetioIsArchetype'', JObj 84 [(''name'', JStr ''a'')]),
              (''phetioArchetypePhetioID'', JStr ''sim.w'')])])]"

text \<open>
  Two versions of a description whose type names are two objects of the same content,
  and whose event type goes from \<^verbatim>\<open>null\<close> to absent.
\<close>

definition identityOld :: jsval where
  "identityOld =
     JObj 101
       [(''phetioElements'', JObj 102
          [(''sim.v'', JObj 103
             [(''phetioTypeName'', JObj 104 []),
              (''phetioEventType'', JNull)])])]"

definition identityNew :: jsval where
  "identityNew =
     JObj 111
       [(''phetioElements'', JObj 112
          [(''sim.v'', JObj 113
             [(''phetioTypeName'', JObj 114 [])])])]"

text \<open>
  Two versions of a description in which the old type name and the old state of
  \<^verbatim>\<open>sim.a\<close> are the object \<^verbatim>\<open>{"toString": null}\<close>, which no template literal can
  convert.
\<close>

definition unprintableOld :: jsval where
  "unprintableOld =
     JObj 91
       [(''phetioElements'', JObj 92
          [(''sim.a'', JObj 93
             [(''phetioTypeName'', JObj 94 [(''toString'', JNull)]),
              (''phetioState'', JObj 95 [(''toString'', JNull)])])])]"

definition unprintableNew :: jsval where
  "unprintableNew =
     JObj 96
       [(''phetioElements'', JObj 97
          [(''sim.a'', JObj 98
             [(''phetioTypeName'', JStr ''T''),
              (''phetioState'', JBool False)])])]"

text \<open>
  Two versions of a description in which the identifier of an element that stays is the
  label of the missing-elements message followed by \<^verbatim>\<open>x\<close>, and the identifier of the
  element that goes is the text of a metadata message.
\<close>

definition collidingOld :: jsval where
  "collidingOld =
     JObj 61
       [(''phetioElements'', JObj 62
          [(''Second API missing elements:'' @ [CHR 0x0A, CHR 0x09] @ ''x'',
              JObj 63 [(''phetioTypeName'', JStr ''A'')]),
           (''x.phetioTypeName changed from A to B'', JObj 64 [])])]"

definition collidingNew :: jsval where
  "collidingNew =
     JObj 65
       [(''phetioElements'', JObj 66
          [(''Second API missing elements:'' @ [CHR 0x0A, CHR 0x09] @ ''x'',
              JObj 67 [(''phetioTypeName'', JStr ''B'')])])]"

section \<open>The comparator, step by step\<close>

lemma andThen_assoc:
  "andThen (andThen m f) g = andThen m (\<lambda>x. andThen (f x) g)"
  by (cases m) simp_all

lemma andThen_Inr: "andThen m Inr = m"
  by (cases m) simp_all

lemma andThen_throws_iff:
  "andThen m f = Inl TypeError \<longleftrightarrow> m = Inl TypeError \<or> (\<exists>x. m = Inr x \<and> f x = Inl TypeError)"
proof (cases m)
  case (Inl e)
  then show ?thesis by (cases e) simp
next
  case (Inr x)
  then show ?thesis by simp
qed

lemma not_throws_iff: "m \<noteq> Inl TypeError \<longleftrightarrow> (\<exists>x. m = Inr x)"
proof (cases m)
  case (Inl e)
  then show ?thesis by (cases e) simp
next
  case (Inr x)
  then show ?thesis by simp
qed

lemma get_throws_iff: "get v k = Inl TypeError \<longleftrightarrow> nullish v"
  by (cases v) (auto simp: nullish_def split: list.splits option.splits)

lemma Object_keys_throws_iff: "Object_keys v = Inl TypeError \<longleftrightarrow> nullish v"
  by (cases v) (auto simp: nullish_def)

lemma strict_eq_refl: "strict_eq v v"
  by (cases v) simp_all

lemma strict_eq_JUndefined: "strict_eq v JUndefined \<longleftrightarrow> v = JUndefined"
  by (cases v) simp_all


lemma ToString_throws_iff: "ToString v = Inl TypeError \<longleftrightarrow> unprintable v"
  by (cases v) (auto split: option.splits)

lemma ToString_primitive: "isPrimitive v \<Longrightarrow> \<not> unprintable v"
  by (cases v) simp_all

lemma changed_message_throws_iff:
  "changed_message phetioID metadataKey oldValue newValue = Inl TypeError \<longleftrightarrow>
     unprintable oldValue \<or> unprintable newValue"
  by (auto simp: changed_message_def andThen_throws_iff ToString_throws_iff [symmetric]
      not_throws_iff [symmetric])

lemma reported_throws_iff:
  "reported phetioID metadataKey invalidNewValue oldValue newValue = Inl TypeError \<longleftrightarrow>
     checkFires invalidNewValue oldValue newValue \<and> (unprintable oldValue \<or> unprintable newValue)"
  by (simp add: reported_def andThen_throws_iff changed_message_throws_iff)

lemma collect_throws_iff: "collect rs = Inl TypeError \<longleftrightarrow> Inl TypeError \<in> set rs"
proof (induction rs)
  case Nil
  show ?case by simp
next
  case (Cons r rs)
  show ?case
  proof (cases r)
    case (Inl e)
    then show ?thesis by (cases e) simp
  next
    case (Inr xs)
    with Cons show ?thesis
      by (auto simp: andThen_throws_iff)
  qed
qed

lemma elementProblems_throws_iff:
  "elementProblems api1 api2 phetioID = Inl TypeError \<longleftrightarrow> messageThrows api1 api2 phetioID"
proof -
  have "Inl TypeError \<in> set (map (\<lambda>(metadataKey, invalidNewValue).
          reported phetioID metadataKey invalidNewValue
            (metadata api1 phetioID metadataKey) (metadata api2 phetioID metadataKey))
        metadataChecks) \<longleftrightarrow> messageThrows api1 api2 phetioID"
    unfolding messageThrows_def list_ex_iff set_map image_iff
    by (intro bex_cong refl) (auto simp: reported_throws_iff eq_commute [of "Inl TypeError"])
  then show ?thesis
    by (simp only: elementProblems_def collect_throws_iff)
qed

lemma metadata_value_throws_iff:
  "metadata_value api phetioID metadataKey = Inl TypeError \<longleftrightarrow> elementNullish api phetioID"
proof (cases "get api ''phetioElements''")
  case (Inl e)
  then show ?thesis
    by (cases e) (simp add: metadata_value_def elementNullish_def)
next
  case elements: (Inr elements)
  show ?thesis
  proof (cases "get elements phetioID")
    case (Inl e)
    with elements show ?thesis
      by (cases e) (simp add: metadata_value_def elementNullish_def)
  next
    case (Inr element)
    with elements show ?thesis
      by (simp add: metadata_value_def elementNullish_def get_throws_iff)
  qed
qed

lemma metadata_value_returns:
  assumes "\<not> elementNullish api phetioID"
  shows "metadata_value api phetioID metadataKey = Inr (metadata api phetioID metadataKey)"
proof (cases "metadata_value api phetioID metadataKey")
  case (Inl e)
  then have "metadata_value api phetioID metadataKey = Inl TypeError"
    by (cases e) simp
  then show ?thesis
    using assms by (simp add: metadata_value_throws_iff)
next
  case (Inr v)
  then show ?thesis by (simp add: metadata_def)
qed

lemma reportDifferences_returns:
  assumes "\<not> elementNullish api1 phetioID" "\<not> elementNullish api2 phetioID"
  shows "reportDifferences api1 api2 phetioID metadataKey invalidNewValue problems =
     andThen (reported phetioID metadataKey invalidNewValue
                (metadata api1 phetioID metadataKey) (metadata api2 phetioID metadataKey))
       (\<lambda>found. Inr (problems @ found))"
  using assms
  by (simp add: reportDifferences_def metadata_value_returns reported_def checkFires_def
      strict_eq_JUndefined andThen_assoc)


lemma checkElement_skips:
  "phetioID \<notin> set elements2 \<Longrightarrow> checkElement api1 api2 elements2 phetioID problems = Inr problems"
  by (simp add: checkElement_def includes_str_def)

lemma checkElement_returns:
  assumes "phetioID \<in> set elements2"
    and "\<not> elementNullish api1 phetioID" "\<not> elementNullish api2 phetioID"
  shows "checkElement api1 api2 elements2 phetioID problems =
     andThen (elementProblems api1 api2 phetioID) (\<lambda>found. Inr (problems @ found))"
  using assms
  by (simp add: checkElement_def includes_str_def reportDifferences_returns elementProblems_def
      metadataChecks_def andThen_assoc)


lemma sharedIDs_Cons:
  "sharedIDs (x # xs) ys = (if x \<in> set ys then x # sharedIDs xs ys else sharedIDs xs ys)"
  by (simp add: sharedIDs_def)

lemma forEach_checkElement_returns:
  assumes "\<forall>phetioID \<in> set elements. phetioID \<in> set elements2 \<longrightarrow>
             \<not> elementNullish api1 phetioID \<and> \<not> elementNullish api2 phetioID"
  shows "forEach (checkElement api1 api2 elements2) elements problems =
     andThen (collect (map (elementProblems api1 api2) (sharedIDs elements elements2)))
       (\<lambda>found. Inr (problems @ found))"
  using assms
proof (induction elements arbitrary: problems)
  case Nil
  show ?case by (simp add: sharedIDs_def)
next
  case (Cons x xs)
  then have rest: "forEach (checkElement api1 api2 elements2) xs problems' =
     andThen (collect (map (elementProblems api1 api2) (sharedIDs xs elements2)))
       (\<lambda>found. Inr (problems' @ found))" for problems'
    by simp
  show ?case
  proof (cases "x \<in> set elements2")
    case True
    with Cons.prems have "checkElement api1 api2 elements2 x problems =
        andThen (elementProblems api1 api2 x) (\<lambda>found. Inr (problems @ found))"
      by (simp add: checkElement_returns)
    with True show ?thesis
      by (simp add: sharedIDs_Cons andThen_assoc rest)
  next
    case False
    then show ?thesis by (simp add: sharedIDs_Cons checkElement_skips rest)
  qed
qed


lemma checkMissing_eq: "checkMissing elements1 elements2 problems =
    problems @ missingProblems elements1 elements2"
proof (cases "elements1 = elements2")
  case True
  then show ?thesis
    by (simp add: checkMissing_def isEqual_def missingProblems_def removedIDs_def)
next
  case False
  then show ?thesis
    by (simp add: checkMissing_def isEqual_def missingProblems_def removedIDs_def
        includes_str_def Let_def)
qed

lemma checkMissing_unguarded_eq: "checkMissing_unguarded elements1 elements2 problems =
    problems @ missingProblems elements1 elements2"
  by (simp add: checkMissing_unguarded_def missingProblems_def removedIDs_def
      includes_str_def Let_def)

lemma compareAPIs_elementIDs:
  "compareAPIs api1 api2 =
     andThen (elementIDs api1) (\<lambda>elements1.
     andThen (elementIDs api2) (\<lambda>elements2.
       forEach (checkElement api1 api2 elements2) elements1
         (missingProblems elements1 elements2)))"
  by (simp add: compareAPIs_def elementIDs_def andThen_assoc checkMissing_eq)

lemma compareAPIs_returns:
  assumes "elementIDs api1 = Inr elements1" "elementIDs api2 = Inr elements2"
    and "\<forall>phetioID \<in> set elements1. phetioID \<in> set elements2 \<longrightarrow>
             \<not> elementNullish api1 phetioID \<and> \<not> elementNullish api2 phetioID"
  shows "compareAPIs api1 api2 =
     andThen (collect (map (elementProblems api1 api2) (sharedIDs elements1 elements2)))
       (\<lambda>found. Inr (missingProblems elements1 elements2 @ found))"
  using assms by (simp add: compareAPIs_elementIDs forEach_checkElement_returns)

lemma elementIDs_throws_iff: "elementIDs api = Inl TypeError \<longleftrightarrow> mappingAbsent api"
proof (cases "get api ''phetioElements''")
  case (Inl e)
  then show ?thesis by (cases e) (simp add: elementIDs_def mappingAbsent_def)
next
  case (Inr elements)
  then show ?thesis by (simp add: elementIDs_def mappingAbsent_def Object_keys_throws_iff)
qed

lemma elementIDs_returns: "\<not> mappingAbsent api \<Longrightarrow> elementIDs api = Inr (identifiers api)"
proof (cases "elementIDs api")
  case (Inl e)
  moreover assume "\<not> mappingAbsent api"
  ultimately show ?thesis by (cases e) (simp add: elementIDs_throws_iff)
next
  case (Inr ids)
  then show ?thesis by (simp add: identifiers_def)
qed

lemma wellFormed_mapping: "wellFormed api \<Longrightarrow> \<not> mappingAbsent api"
  by (auto simp: wellFormed_def mappingAbsent_def nullish_def split: sum.splits jsval.splits)

lemma wellFormed_element:
  assumes "wellFormed api" "phetioID \<in> set (identifiers api)"
  shows "\<not> elementNullish api phetioID"
proof -
  from assms(1) obtain a props where elements: "get api ''phetioElements'' = Inr (JObj a props)"
    and objects: "list_all (\<lambda>(phetioID, element). isObject element) props"
    by (auto simp: wellFormed_def split: sum.splits jsval.splits)
  from elements assms(2) have "phetioID \<in> fst ` set props"
    by (simp add: identifiers_def elementIDs_def)
  then obtain element where "map_of props phetioID = Some element"
    by (metis weak_map_of_SomeI map_of_eq_None_iff not_Some_eq)
  moreover from this have "(phetioID, element) \<in> set props"
    by (rule map_of_SomeD)
  with objects have "isObject element"
    by (auto simp: list_all_iff)
  then have "\<not> nullish element"
    by (cases element) (simp_all add: nullish_def)
  ultimately show ?thesis
    using elements by (simp add: elementNullish_def)
qed

lemma compareAPIs_wellFormed:
  assumes "wellFormed api1" "wellFormed api2"
  shows "compareAPIs api1 api2 =
     andThen (collect (map (elementProblems api1 api2)
                           (sharedIDs (identifiers api1) (identifiers api2))))
       (\<lambda>found. Inr (missingProblems (identifiers api1) (identifiers api2) @ found))"
proof (rule compareAPIs_returns)
  show "elementIDs api1 = Inr (identifiers api1)" "elementIDs api2 = Inr (identifiers api2)"
    using assms by (simp_all add: elementIDs_returns wellFormed_mapping)
  show "\<forall>phetioID \<in> set (identifiers api1). phetioID \<in> set (identifiers api2) \<longrightarrow>
             \<not> elementNullish api1 phetioID \<and> \<not> elementNullish api2 phetioID"
    using assms by (simp add: wellFormed_element)
qed


lemma primitiveMetadata_value:
  assumes "primitiveMetadata api"
  shows "isPrimitive (metadata api phetioID metadataKey)"
proof -
  from assms obtain a props where elements: "get api ''phetioElements'' = Inr (JObj a props)"
    and flat: "list_all (\<lambda>(phetioID, element).
             case element of
               JObj _ attributes \<Rightarrow> list_all (\<lambda>(metadataKey, v). isPrimitive v) attributes
             | _ \<Rightarrow> False) props"
    by (auto simp: primitiveMetadata_def split: sum.splits jsval.splits)
  show ?thesis
  proof (cases "map_of props phetioID")
    case None
    with elements show ?thesis
      by (simp add: metadata_def metadata_value_def)
  next
    case (Some element)
    then have "(phetioID, element) \<in> set props" by (rule map_of_SomeD)
    with flat obtain b attributes where element: "element = JObj b attributes"
      and attributes: "list_all (\<lambda>(metadataKey, v). isPrimitive v) attributes"
      by (auto simp: list_all_iff split: jsval.splits)
    show ?thesis
    proof (cases "map_of attributes metadataKey")
      case None
      with elements Some element show ?thesis
        by (simp add: metadata_def metadata_value_def)
    next
      case found: (Some v)
      then have "(metadataKey, v) \<in> set attributes" by (rule map_of_SomeD)
      with attributes have "isPrimitive v" by (auto simp: list_all_iff)
      with elements Some element found show ?thesis
        by (simp add: metadata_def metadata_value_def)
    qed
  qed
qed

lemma primitiveMetadata_messages:
  assumes "primitiveMetadata api1" "primitiveMetadata api2"
  shows "\<not> messageThrows api1 api2 phetioID"
proof -
  have "\<not> unprintable (metadata api1 phetioID metadataKey)"
    "\<not> unprintable (metadata api2 phetioID metadataKey)" for metadataKey
    using assms by (simp_all add: ToString_primitive primitiveMetadata_value)
  then show ?thesis
    by (auto simp: messageThrows_def list_ex_iff)
qed

lemma collect_returns_iff: "(\<exists>xs. collect rs = Inr xs) \<longleftrightarrow> Inl TypeError \<notin> set rs"
  using collect_throws_iff [of rs] not_throws_iff [of "collect rs"] by auto

lemma compareAPIs_primitive:
  assumes "primitiveMetadata api1" "primitiveMetadata api2"
  shows "\<exists>found. collect (map (elementProblems api1 api2) ids) = Inr found"
proof -
  have "Inl TypeError \<notin> set (map (elementProblems api1 api2) ids)"
    using primitiveMetadata_messages [OF assms]
    by (auto simp: elementProblems_throws_iff eq_commute [of "Inl TypeError"])
  then show ?thesis by (simp add: collect_returns_iff)
qed

section \<open>The result as a list\<close>

lemma checkFires_same: "\<not> checkFires invalidNewValue v v"
  by (simp add: checkFires_def strict_eq_refl)

lemma reported_same: "reported phetioID metadataKey invalidNewValue v v = Inr []"
  by (simp add: reported_def checkFires_same)

lemma elementProblems_same: "elementProblems api api phetioID = Inr []"
  by (simp add: elementProblems_def reported_same metadataChecks_def)

lemma collect_nothing: "collect (map (\<lambda>x. Inr []) xs) = Inr []"
  by (induction xs) simp_all

lemma collect_member:
  assumes "collect rs = Inr xs"
  shows "x \<in> set xs \<longleftrightarrow> (\<exists>ys. Inr ys \<in> set rs \<and> x \<in> set ys)"
  using assms
proof (induction rs arbitrary: xs)
  case Nil
  then show ?case by auto
next
  case (Cons r rs)
  from Cons.prems obtain ys zs where r: "r = Inr ys" and rest: "collect rs = Inr zs"
    and xs: "xs = ys @ zs"
    by (cases r; cases "collect rs") auto
  from Cons.IH [OF rest] show ?case
    unfolding xs r by auto
qed

lemma collect_all_return:
  assumes "collect rs = Inr xs" "r \<in> set rs"
  shows "\<exists>ys. r = Inr ys"
proof -
  from assms(1) have "Inl TypeError \<notin> set rs"
    using collect_throws_iff [of rs] by auto
  with assms(2) have "r \<noteq> Inl TypeError" by auto
  then show ?thesis by (simp add: not_throws_iff)
qed

lemma collect_subset:
  assumes "collect rs = Inr xs" "Inr ys \<in> set rs"
  shows "set ys \<subseteq> set xs"
proof
  fix x
  assume "x \<in> set ys"
  with assms(2) have "\<exists>ys. Inr ys \<in> set rs \<and> x \<in> set ys" by (intro exI conjI)
  then show "x \<in> set xs" by (simp only: collect_member [OF assms(1)])
qed

lemma removedIDs_empty_iff: "removedIDs elements1 elements2 = [] \<longleftrightarrow> set elements1 \<subseteq> set elements2"
  by (auto simp: removedIDs_def filter_empty_conv)

lemma set_removedIDs: "set (removedIDs elements1 elements2) = set elements1 - set elements2"
  by (auto simp: removedIDs_def)

lemma missingProblems_subset: "set elements1 \<subseteq> set elements2 \<Longrightarrow> missingProblems elements1 elements2 = []"
  by (simp add: missingProblems_def removedIDs_empty_iff)

lemma sharedIDs_subset: "set elements1 \<subseteq> set elements2 \<Longrightarrow> sharedIDs elements1 elements2 = elements1"
  by (auto simp: sharedIDs_def filter_id_conv)

lemma compareAPIs_result:
  assumes "wellFormed api1" "wellFormed api2" "compareAPIs api1 api2 = Inr result"
  obtains found where
    "collect (map (elementProblems api1 api2)
       (sharedIDs (identifiers api1) (identifiers api2))) = Inr found"
    "result = missingProblems (identifiers api1) (identifiers api2) @ found"
proof -
  let ?steps = "collect (map (elementProblems api1 api2)
       (sharedIDs (identifiers api1) (identifiers api2)))"
  from assms(3) have "andThen ?steps
      (\<lambda>found. Inr (missingProblems (identifiers api1) (identifiers api2) @ found)) = Inr result"
    by (simp add: compareAPIs_wellFormed [OF assms(1,2)])
  then obtain found where "?steps = Inr found"
    "result = missingProblems (identifiers api1) (identifiers api2) @ found"
    by (cases ?steps) auto
  then show thesis by (rule that)
qed

lemma reported_in_result:
  assumes "wellFormed api1" "wellFormed api2"
    and "phetioID \<in> set (identifiers api1)" "phetioID \<in> set (identifiers api2)"
    and "(metadataKey, invalidNewValue) \<in> set metadataChecks"
    and "compareAPIs api1 api2 = Inr result"
  shows "\<exists>found. reported phetioID metadataKey invalidNewValue
            (metadata api1 phetioID metadataKey) (metadata api2 phetioID metadataKey) = Inr found \<and>
          set found \<subseteq> set result"
proof -
  from assms(1,2,6) obtain all_found where
    steps: "collect (map (elementProblems api1 api2)
       (sharedIDs (identifiers api1) (identifiers api2))) = Inr all_found"
    and result: "result = missingProblems (identifiers api1) (identifiers api2) @ all_found"
    by (rule compareAPIs_result)
  from assms(3,4) have step: "elementProblems api1 api2 phetioID \<in>
      set (map (elementProblems api1 api2) (sharedIDs (identifiers api1) (identifiers api2)))"
    by (simp add: sharedIDs_def)
  from collect_all_return [OF steps step] obtain element_found where
    element: "elementProblems api1 api2 phetioID = Inr element_found" ..
  from step have sub1: "set element_found \<subseteq> set all_found"
    unfolding element by (rule collect_subset [OF steps])
  let ?r = "reported phetioID metadataKey invalidNewValue
            (metadata api1 phetioID metadataKey) (metadata api2 phetioID metadataKey)"
  from assms(5) have check: "?r \<in> set (map (\<lambda>(metadataKey, invalidNewValue).
          reported phetioID metadataKey invalidNewValue
            (metadata api1 phetioID metadataKey) (metadata api2 phetioID metadataKey))
        metadataChecks)"
    by force
  note checks = element [unfolded elementProblems_def]
  from collect_all_return [OF checks check] obtain found where found: "?r = Inr found" ..
  from check have "set found \<subseteq> set element_found"
    unfolding found by (rule collect_subset [OF checks])
  with sub1 result found show ?thesis by auto
qed

lemma reportDifferences_shared:
  assumes "wellFormed api1" "wellFormed api2"
    and "phetioID \<in> set (identifiers api1)" "phetioID \<in> set (identifiers api2)"
  shows "reportDifferences api1 api2 phetioID metadataKey invalidNewValue problems =
     andThen (reported phetioID metadataKey invalidNewValue
                (metadata api1 phetioID metadataKey) (metadata api2 phetioID metadataKey))
       (\<lambda>found. Inr (problems @ found))"
  using assms by (simp add: reportDifferences_returns wellFormed_element)

lemma compareAPIs_same:
  assumes "wellFormed api"
  shows "compareAPIs api api = Inr []"
proof -
  have "elementProblems api api = (\<lambda>x. Inr [])"
    by (rule ext) (rule elementProblems_same)
  then show ?thesis
    using assms
    by (simp add: compareAPIs_wellFormed missingProblems_subset collect_nothing)
qed

lemma changed_message_not_missing:
  assumes "CHR 0x0A \<notin> set phetioID"
    and "changed_message phetioID metadataKey oldValue newValue = Inr rendered"
  shows "rendered \<noteq> missing_message missingFrom2"
proof
  assume "rendered = missing_message missingFrom2"
  with assms(2) obtain rest1 rest2 where eq: "phetioID @ CHR ''.'' # rest1 =
      ''Second API missing elements:'' @ CHR 0x0A # rest2"
    by (cases "ToString oldValue"; cases "ToString newValue")
      (auto simp: changed_message_def missing_message_def nl_tab_def)
  then obtain us where
    "phetioID = ''Second API missing elements:'' @ us \<and> us @ CHR ''.'' # rest1 = CHR 0x0A # rest2 \<or>
     phetioID @ us = ''Second API missing elements:'' \<and> CHR ''.'' # rest1 = us @ CHR 0x0A # rest2"
    unfolding append_eq_append_conv2 by blast
  then show False
  proof (elim disjE conjE)
    assume id: "phetioID = ''Second API missing elements:'' @ us"
      and us: "us @ CHR ''.'' # rest1 = CHR 0x0A # rest2"
    from us have "us \<noteq> []" by auto
    with us have "hd us = CHR 0x0A" by (cases us) simp_all
    with \<open>us \<noteq> []\<close> have "CHR 0x0A \<in> set us" by (metis hd_in_set)
    with id assms show False by simp
  next
    assume label: "phetioID @ us = ''Second API missing elements:''"
      and us: "CHR ''.'' # rest1 = us @ CHR 0x0A # rest2"
    from us have "us \<noteq> []" by auto
    with us have "hd us = CHR ''.''" by (cases us) simp_all
    with \<open>us \<noteq> []\<close> have "CHR ''.'' \<in> set us" by (metis hd_in_set)
    then have "CHR ''.'' \<in> set (phetioID @ us)" by simp
    then show False unfolding label by simp
  qed
qed

lemma elementProblems_not_missing:
  assumes "CHR 0x0A \<notin> set phetioID"
    and "elementProblems api1 api2 phetioID = Inr found" "p \<in> set found"
  shows "message p \<noteq> missing_message missingFrom2"
proof -
  note checks = assms(2) [unfolded elementProblems_def]
  from assms(3) obtain one where "Inr one \<in> set (map (\<lambda>(metadataKey, invalidNewValue).
          reported phetioID metadataKey invalidNewValue
            (metadata api1 phetioID metadataKey) (metadata api2 phetioID metadataKey))
        metadataChecks)" and p: "p \<in> set one"
    unfolding collect_member [OF checks] by (elim exE conjE)
  then obtain metadataKey invalidNewValue where
    "reported phetioID metadataKey invalidNewValue
        (metadata api1 phetioID metadataKey) (metadata api2 phetioID metadataKey) = Inr one"
    by force
  with p obtain rendered where "changed_message phetioID metadataKey
      (metadata api1 phetioID metadataKey) (metadata api2 phetioID metadataKey) = Inr rendered"
    and "message p = rendered"
    by (cases "changed_message phetioID metadataKey
      (metadata api1 phetioID metadataKey) (metadata api2 phetioID metadataKey)")
      (auto simp: reported_def split: if_splits)
  with assms(1) show ?thesis
    by (simp add: changed_message_not_missing)
qed


section \<open>What the result depends on\<close>

lemma forEach_cong:
  assumes "\<And>x s. x \<in> set xs \<Longrightarrow> f x s = g x s"
  shows "forEach f xs s = forEach g xs s"
  using assms
proof (induction xs arbitrary: s)
  case Nil
  show ?case by simp
next
  case (Cons x xs)
  have "forEach f xs = forEach g xs"
    by (rule ext) (simp add: Cons)
  moreover have "f x s = g x s"
    by (simp add: Cons.prems)
  ultimately show ?case by simp
qed

lemma reportDifferences_cong:
  assumes "metadata_value b1 phetioID metadataKey = metadata_value a1 phetioID metadataKey"
    and "metadata_value b2 phetioID metadataKey = metadata_value a2 phetioID metadataKey"
  shows "reportDifferences b1 b2 phetioID metadataKey invalidNewValue =
     reportDifferences a1 a2 phetioID metadataKey invalidNewValue"
  by (rule ext) (simp add: reportDifferences_def assms)

lemma checkElement_cong:
  assumes "(phetioID \<in> set elements2') = (phetioID \<in> set elements2)"
    and "\<And>metadataKey. metadataKey \<in> fst ` set metadataChecks \<Longrightarrow>
           metadata_value b1 phetioID metadataKey = metadata_value a1 phetioID metadataKey"
    and "\<And>metadataKey. metadataKey \<in> fst ` set metadataChecks \<Longrightarrow>
           metadata_value b2 phetioID metadataKey = metadata_value a2 phetioID metadataKey"
  shows "checkElement b1 b2 elements2' phetioID problems =
     checkElement a1 a2 elements2 phetioID problems"
proof -
  have "reportDifferences b1 b2 phetioID metadataKey invalidNewValue =
     reportDifferences a1 a2 phetioID metadataKey invalidNewValue"
    if "metadataKey \<in> fst ` set metadataChecks" for metadataKey invalidNewValue
    using that by (intro reportDifferences_cong assms)
  then have calls:
    "reportDifferences b1 b2 phetioID ''phetioTypeName'' = reportDifferences a1 a2 phetioID ''phetioTypeName''"
    "reportDifferences b1 b2 phetioID ''phetioEventType'' = reportDifferences a1 a2 phetioID ''phetioEventType''"
    "reportDifferences b1 b2 phetioID ''phetioPlayback'' = reportDifferences a1 a2 phetioID ''phetioPlayback''"
    "reportDifferences b1 b2 phetioID ''phetioDynamicElement'' = reportDifferences a1 a2 phetioID ''phetioDynamicElement''"
    "reportDifferences b1 b2 phetioID ''phetioIsArchetype'' = reportDifferences a1 a2 phetioID ''phetioIsArchetype''"
    "reportDifferences b1 b2 phetioID ''phetioArchetypePhetioID'' = reportDifferences a1 a2 phetioID ''phetioArchetypePhetioID''"
    "reportDifferences b1 b2 phetioID ''phetioState'' = reportDifferences a1 a2 phetioID ''phetioState''"
    "reportDifferences b1 b2 phetioID ''phetioReadOnly'' = reportDifferences a1 a2 phetioID ''phetioReadOnly''"
    by (intro ext; simp add: metadataChecks_def)+
  show ?thesis
    by (simp add: checkElement_def includes_str_def assms(1) calls)
qed

lemma compareAPIs_cong:
  assumes "elementIDs b1 = elementIDs a1"
    and "(elementIDs b2 = Inl TypeError) = (elementIDs a2 = Inl TypeError)"
    and "\<And>phetioID. phetioID \<in> set (identifiers a1) \<Longrightarrow>
           (phetioID \<in> set (identifiers b2)) = (phetioID \<in> set (identifiers a2))"
    and "\<And>phetioID metadataKey. phetioID \<in> set (identifiers a1) \<Longrightarrow>
           metadataKey \<in> fst ` set metadataChecks \<Longrightarrow>
           metadata_value b1 phetioID metadataKey = metadata_value a1 phetioID metadataKey"
    and "\<And>phetioID metadataKey. phetioID \<in> set (identifiers a1) \<Longrightarrow>
           metadataKey \<in> fst ` set metadataChecks \<Longrightarrow>
           metadata_value b2 phetioID metadataKey = metadata_value a2 phetioID metadataKey"
  shows "compareAPIs b1 b2 = compareAPIs a1 a2"
proof (cases "mappingAbsent a1 \<or> mappingAbsent a2")
  case True
  show ?thesis
  proof (cases "mappingAbsent a1")
    case True
    then have "elementIDs a1 = Inl TypeError"
      by (simp add: elementIDs_throws_iff)
    with assms(1) show ?thesis
      by (simp add: compareAPIs_elementIDs)
  next
    case False
    then have "elementIDs a1 = Inr (identifiers a1)"
      by (simp add: elementIDs_returns)
    moreover from False \<open>mappingAbsent a1 \<or> mappingAbsent a2\<close>
    have "elementIDs a2 = Inl TypeError"
      by (simp add: elementIDs_throws_iff)
    ultimately show ?thesis
      using assms(1,2) by (simp add: compareAPIs_elementIDs)
  qed
next
  case False
  then have a: "elementIDs a1 = Inr (identifiers a1)" "elementIDs a2 = Inr (identifiers a2)"
    by (simp_all add: elementIDs_returns)
  from False assms(2) have "\<not> mappingAbsent b2"
    by (simp add: elementIDs_throws_iff)
  with a assms(1) have b: "elementIDs b1 = Inr (identifiers a1)" "elementIDs b2 = Inr (identifiers b2)"
    by (simp_all add: elementIDs_returns)
  have missing: "missingProblems (identifiers a1) (identifiers b2) =
      missingProblems (identifiers a1) (identifiers a2)"
  proof -
    have "removedIDs (identifiers a1) (identifiers b2) = removedIDs (identifiers a1) (identifiers a2)"
      unfolding removedIDs_def by (rule filter_cong) (simp_all add: assms(3))
    then show ?thesis by (simp add: missingProblems_def)
  qed
  have "forEach (checkElement b1 b2 (identifiers b2)) (identifiers a1) problems =
      forEach (checkElement a1 a2 (identifiers a2)) (identifiers a1) problems" for problems
    by (intro forEach_cong checkElement_cong assms(3-5))
  then show ?thesis
    by (simp add: compareAPIs_elementIDs a b missing)
qed

section \<open>Changed descriptions\<close>

lemma map_fst_map_entry: "map fst (AList.map_entry k f props) = map fst props"
  by (induction props) auto

lemma Object_keys_mapProperty: "Object_keys (mapProperty k f v) = Object_keys v"
  by (cases v) (simp_all add: map_fst_map_entry)

lemma get_mapProperty_other: "k' \<noteq> k \<Longrightarrow> get (mapProperty k f v) k' = get v k'"
  by (cases v) (simp_all add: map_of_map_entry)

lemma get_mapProperty_same:
  "get (mapProperty k f v) k = get v k \<or>
   (\<exists>x. get v k = Inr x \<and> get (mapProperty k f v) k = Inr (f x))"
  by (cases v) (auto simp: map_of_map_entry split: option.splits)

lemma andThen_get_mapProperty:
  assumes "\<And>x. F (f x) = F x"
  shows "andThen (get (mapProperty k f v) k) F = andThen (get v k) F"
  using get_mapProperty_same [of k f v] by (auto simp: assms)

lemma get_setProperty_other: "k' \<noteq> k \<Longrightarrow> get (setProperty v k x) k' = get v k'"
  by (cases v) (simp_all add: update_conv')

lemma elementIDs_setMetadata: "elementIDs (setMetadata api phetioID k x) = elementIDs api"
  unfolding elementIDs_def setMetadata_def
  by (rule andThen_get_mapProperty) (rule Object_keys_mapProperty)

lemma metadata_value_setMetadata:
  assumes "metadataKey \<noteq> k"
  shows "metadata_value (setMetadata api phetioID k x) phetioID' metadataKey =
     metadata_value api phetioID' metadataKey"
  unfolding metadata_value_def setMetadata_def
proof (rule andThen_get_mapProperty)
  fix elements
  show "andThen (get (mapProperty phetioID (\<lambda>element. setProperty element k x) elements) phetioID')
          (\<lambda>element. get element metadataKey) =
        andThen (get elements phetioID') (\<lambda>element. get element metadataKey)"
  proof (cases "phetioID' = phetioID")
    case True
    show ?thesis
      unfolding True
      by (rule andThen_get_mapProperty) (simp add: get_setProperty_other assms)
  next
    case False
    then show ?thesis by (simp add: get_mapProperty_other)
  qed
qed

lemma Object_keys_setProperty:
  "Object_keys (setProperty v k x) = Object_keys v \<or>
   (\<exists>ks. Object_keys v = Inr ks \<and> Object_keys (setProperty v k x) = Inr (ks @ [k]))"
  by (cases v) (simp_all add: update_keys)

lemma elementIDs_setElement:
  "elementIDs (setElement api phetioID element) = elementIDs api \<or>
   (\<exists>ids. elementIDs api = Inr ids \<and>
      elementIDs (setElement api phetioID element) = Inr (ids @ [phetioID]))"
proof -
  let ?f = "\<lambda>elements. setProperty elements phetioID element"
  consider "get (mapProperty ''phetioElements'' ?f api) ''phetioElements'' =
      get api ''phetioElements''"
    | elements where "get api ''phetioElements'' = Inr elements"
      "get (mapProperty ''phetioElements'' ?f api) ''phetioElements'' = Inr (?f elements)"
    using get_mapProperty_same [of "''phetioElements''" ?f api] by blast
  then show ?thesis
  proof cases
    case 1
    then show ?thesis by (simp add: elementIDs_def setElement_def)
  next
    case 2
    then show ?thesis
      using Object_keys_setProperty [of elements phetioID element]
      by (auto simp: elementIDs_def setElement_def)
  qed
qed

lemma metadata_value_setElement:
  assumes "phetioID' \<noteq> phetioID"
  shows "metadata_value (setElement api phetioID element) phetioID' metadataKey =
     metadata_value api phetioID' metadataKey"
  unfolding metadata_value_def setElement_def
  by (rule andThen_get_mapProperty) (simp add: get_setProperty_other assms)

lemma compareAPIs_setElement:
  assumes "phetioID \<notin> set (identifiers oldAPI)"
  shows "compareAPIs oldAPI (setElement newAPI phetioID element) = compareAPIs oldAPI newAPI"
proof (rule compareAPIs_cong)
  show "(elementIDs (setElement newAPI phetioID element) = Inl TypeError) =
      (elementIDs newAPI = Inl TypeError)"
    using elementIDs_setElement [of newAPI phetioID element] by auto
  show "(phetioID' \<in> set (identifiers (setElement newAPI phetioID element))) =
      (phetioID' \<in> set (identifiers newAPI))" if "phetioID' \<in> set (identifiers oldAPI)"
    for phetioID'
  proof -
    from that assms have "phetioID' \<noteq> phetioID" by auto
    then show ?thesis
      using elementIDs_setElement [of newAPI phetioID element]
      by (auto simp: identifiers_def)
  qed
  show "metadata_value (setElement newAPI phetioID element) phetioID' metadataKey =
      metadata_value newAPI phetioID' metadataKey" if "phetioID' \<in> set (identifiers oldAPI)"
    for phetioID' metadataKey
  proof -
    from that assms have "phetioID' \<noteq> phetioID" by auto
    then show ?thesis by (rule metadata_value_setElement)
  qed
qed simp_all

lemma compareAPIs_setMetadata:
  assumes "k \<in> set excludedKeys"
    and "b1 = a1 \<or> b1 = setMetadata a1 phetioID k x"
    and "b2 = a2 \<or> b2 = setMetadata a2 phetioID k y"
  shows "compareAPIs b1 b2 = compareAPIs a1 a2"
proof (rule compareAPIs_cong)
  show "elementIDs b1 = elementIDs a1"
    using assms(2) by (auto simp: elementIDs_setMetadata)
  have ids2: "elementIDs b2 = elementIDs a2"
    using assms(3) by (auto simp: elementIDs_setMetadata)
  then show "(elementIDs b2 = Inl TypeError) = (elementIDs a2 = Inl TypeError)"
    by simp
  from ids2 show "(phetioID' \<in> set (identifiers b2)) = (phetioID' \<in> set (identifiers a2))"
    for phetioID'
    by (simp add: identifiers_def)
next
  fix phetioID' metadataKey
  assume "metadataKey \<in> fst ` set metadataChecks"
  with assms(1) have "metadataKey \<noteq> k"
    by (auto simp: metadataChecks_def excludedKeys_def)
  then show "metadata_value b1 phetioID' metadataKey = metadata_value a1 phetioID' metadataKey"
    "metadata_value b2 phetioID' metadataKey = metadata_value a2 phetioID' metadataKey"
    using assms(2,3) by (auto simp: metadata_value_setMetadata)
qed

section \<open>The claims\<close>

text \<open>
  C1, as the code has it: for well-formed descriptions, when some identifier of the old
  description is not in the new one and the comparator returns, the result starts with
  the one problem of the first block, whose message is the label
  \<^verbatim>\<open>Second API missing elements:\<close> followed by all the removed identifiers, each on a
  line of its own (they are joined by a newline and a tab); the other problems are
  those of the identifiers that both descriptions have, and none of them has that
  message when no such identifier contains a newline. The comparator returns when every
  metadata value is primitive. An identifier that only the new description has produces
  no problem: adding an element under such an identifier to the new description leaves
  the result as it is.
\<close>

theorem removed_elements_reported:
  assumes "wellFormed oldAPI" "wellFormed newAPI"
  shows "set (removedIDs (identifiers oldAPI) (identifiers newAPI)) =
       set (identifiers oldAPI) - set (identifiers newAPI) \<and>
    (set (identifiers oldAPI) - set (identifiers newAPI) \<noteq> {} \<longrightarrow>
       compareAPIs oldAPI newAPI =
         andThen (collect (map (elementProblems oldAPI newAPI)
                    (sharedIDs (identifiers oldAPI) (identifiers newAPI))))
           (\<lambda>found.
              Inr (\<lparr>message = ''Second API missing elements:'' @ nl_tab
                      @ join nl_tab (removedIDs (identifiers oldAPI) (identifiers newAPI))\<rparr>
                   # found))) \<and>
    (primitiveMetadata oldAPI \<and> primitiveMetadata newAPI \<longrightarrow>
       (\<exists>found. collect (map (elementProblems oldAPI newAPI)
                   (sharedIDs (identifiers oldAPI) (identifiers newAPI))) = Inr found)) \<and>
    ((\<forall>shared \<in> set (sharedIDs (identifiers oldAPI) (identifiers newAPI)).
         CHR 0x0A \<notin> set shared) \<longrightarrow>
       (\<forall>found. collect (map (elementProblems oldAPI newAPI)
                   (sharedIDs (identifiers oldAPI) (identifiers newAPI))) = Inr found \<longrightarrow>
          (\<forall>p \<in> set found.
             message p \<noteq> ''Second API missing elements:'' @ nl_tab
               @ join nl_tab (removedIDs (identifiers oldAPI) (identifiers newAPI))))) \<and>
    (phetioID \<notin> set (identifiers oldAPI) \<longrightarrow>
       compareAPIs oldAPI (setElement newAPI phetioID element) = compareAPIs oldAPI newAPI)"
proof (intro conjI impI allI ballI)
  show "set (removedIDs (identifiers oldAPI) (identifiers newAPI)) =
       set (identifiers oldAPI) - set (identifiers newAPI)"
    by (rule set_removedIDs)
next
  assume "set (identifiers oldAPI) - set (identifiers newAPI) \<noteq> {}"
  then have "removedIDs (identifiers oldAPI) (identifiers newAPI) \<noteq> []"
    using set_removedIDs [of "identifiers oldAPI" "identifiers newAPI"] by auto
  then show "compareAPIs oldAPI newAPI =
         andThen (collect (map (elementProblems oldAPI newAPI)
                    (sharedIDs (identifiers oldAPI) (identifiers newAPI))))
           (\<lambda>found.
              Inr (\<lparr>message = ''Second API missing elements:'' @ nl_tab
                      @ join nl_tab (removedIDs (identifiers oldAPI) (identifiers newAPI))\<rparr>
                   # found))"
    by (simp add: compareAPIs_wellFormed [OF assms] missingProblems_def missing_message_def)
next
  assume "primitiveMetadata oldAPI \<and> primitiveMetadata newAPI"
  then show "\<exists>found. collect (map (elementProblems oldAPI newAPI)
                   (sharedIDs (identifiers oldAPI) (identifiers newAPI))) = Inr found"
    by (simp add: compareAPIs_primitive)
next
  fix found p
  assume lines: "\<forall>shared \<in> set (sharedIDs (identifiers oldAPI) (identifiers newAPI)).
      CHR 0x0A \<notin> set shared"
    and steps: "collect (map (elementProblems oldAPI newAPI)
      (sharedIDs (identifiers oldAPI) (identifiers newAPI))) = Inr found"
    and "p \<in> set found"
  then obtain one where "Inr one \<in> set (map (elementProblems oldAPI newAPI)
      (sharedIDs (identifiers oldAPI) (identifiers newAPI)))" and p: "p \<in> set one"
    unfolding collect_member [OF steps] by (elim exE conjE)
  then obtain shared where "shared \<in> set (sharedIDs (identifiers oldAPI) (identifiers newAPI))"
    and "elementProblems oldAPI newAPI shared = Inr one"
    by auto
  with lines p have "message p \<noteq>
      missing_message (removedIDs (identifiers oldAPI) (identifiers newAPI))"
    by (intro elementProblems_not_missing [where phetioID = shared and found = one]) auto
  then show "message p \<noteq> ''Second API missing elements:'' @ nl_tab
      @ join nl_tab (removedIDs (identifiers oldAPI) (identifiers newAPI))"
    by (simp add: missing_message_def)
next
  assume "phetioID \<notin> set (identifiers oldAPI)"
  then show "compareAPIs oldAPI (setElement newAPI phetioID element) = compareAPIs oldAPI newAPI"
    by (rule compareAPIs_setElement)
qed

theorem removed_elements_reported_witness:
  "wellFormed exampleOld \<and> wellFormed exampleNew \<and> wellFormed emptyAPI \<and>
   primitiveMetadata exampleOld \<and> primitiveMetadata exampleNew \<and>
   set (identifiers exampleOld) - set (identifiers exampleNew) = {''sim.gone''} \<and>
   compareAPIs exampleOld exampleNew =
     Inr [\<lparr>message = ''Second API missing elements:'' @ nl_tab @ ''sim.gone''\<rparr>,
          \<lparr>message = ''sim.a.phetioTypeName changed from T1 to T2''\<rparr>,
          \<lparr>message = ''sim.a.phetioState changed from true to false''\<rparr>,
          \<lparr>message = ''sim.a.phetioReadOnly changed from false to true''\<rparr>,
          \<lparr>message = ''sim.c.phetioEventType changed from undefined to MODEL''\<rparr>,
          \<lparr>message = ''sim.c.phetioState changed from undefined to false''\<rparr>] \<and>
   compareAPIs exampleOld emptyAPI =
     Inr [\<lparr>message = ''Second API missing elements:'' @ nl_tab @ ''sim.a'' @ nl_tab @ ''sim.b''
            @ nl_tab @ ''sim.c'' @ nl_tab @ ''sim.d'' @ nl_tab @ ''sim.gone''\<rparr>] \<and>
   list_all (\<lambda>shared. CHR 0x0A \<notin> set shared)
     (sharedIDs (identifiers exampleOld) (identifiers exampleNew)) \<and>
   list_all (\<lambda>p. message p \<noteq> ''Second API missing elements:'' @ nl_tab @ ''sim.gone'')
     [\<lparr>message = ''sim.a.phetioTypeName changed from T1 to T2''\<rparr>,
      \<lparr>message = ''sim.a.phetioState changed from true to false''\<rparr>,
      \<lparr>message = ''sim.a.phetioReadOnly changed from false to true''\<rparr>,
      \<lparr>message = ''sim.c.phetioEventType changed from undefined to MODEL''\<rparr>,
      \<lparr>message = ''sim.c.phetioState changed from undefined to false''\<rparr>] \<and>
   ''sim.more'' \<notin> set (identifiers exampleOld) \<and>
   ''sim.more'' \<in> set (identifiers (setElement exampleNew ''sim.more'' (JObj 18 []))) \<and>
   compareAPIs exampleOld (setElement exampleNew ''sim.more'' (JObj 18 [])) =
     compareAPIs exampleOld exampleNew"
proof -
  have wf: "wellFormed exampleOld" "wellFormed exampleNew" "wellFormed emptyAPI"
    by code_simp+
  have primitive: "primitiveMetadata exampleOld" "primitiveMetadata exampleNew"
    by code_simp+
  have removed: "removedIDs (identifiers exampleOld) (identifiers exampleNew) = [''sim.gone'']"
    "removedIDs (identifiers exampleOld) (identifiers emptyAPI) =
       [''sim.a'', ''sim.b'', ''sim.c'', ''sim.d'', ''sim.gone'']"
    by code_simp+
  have shared: "sharedIDs (identifiers exampleOld) (identifiers exampleNew) =
      [''sim.a'', ''sim.b'', ''sim.c'', ''sim.d'']"
    "sharedIDs (identifiers exampleOld) (identifiers emptyAPI) = []"
    by code_simp+
  have problems:
    "elementProblems exampleOld exampleNew ''sim.a'' =
      Inr [\<lparr>message = ''sim.a.phetioTypeName changed from T1 to T2''\<rparr>,
           \<lparr>message = ''sim.a.phetioState changed from true to false''\<rparr>,
           \<lparr>message = ''sim.a.phetioReadOnly changed from false to true''\<rparr>]"
    "elementProblems exampleOld exampleNew ''sim.b'' = Inr []"
    "elementProblems exampleOld exampleNew ''sim.c'' =
      Inr [\<lparr>message = ''sim.c.phetioEventType changed from undefined to MODEL''\<rparr>,
           \<lparr>message = ''sim.c.phetioState changed from undefined to false''\<rparr>]"
    "elementProblems exampleOld exampleNew ''sim.d'' = Inr []"
    by code_simp+
  have steps: "collect (map (elementProblems exampleOld exampleNew)
      (sharedIDs (identifiers exampleOld) (identifiers exampleNew))) =
      Inr [\<lparr>message = ''sim.a.phetioTypeName changed from T1 to T2''\<rparr>,
           \<lparr>message = ''sim.a.phetioState changed from true to false''\<rparr>,
           \<lparr>message = ''sim.a.phetioReadOnly changed from false to true''\<rparr>,
           \<lparr>message = ''sim.c.phetioEventType changed from undefined to MODEL''\<rparr>,
           \<lparr>message = ''sim.c.phetioState changed from undefined to false''\<rparr>]"
    unfolding shared by (simp add: problems)
  have more: "''sim.more'' \<notin> set (identifiers exampleOld)"
    "''sim.more'' \<in> set (identifiers (setElement exampleNew ''sim.more'' (JObj 18 [])))"
    by code_simp+
  note new = removed_elements_reported [OF wf(1,2), of "''sim.more''" "JObj 18 []"]
  note empty = removed_elements_reported [OF wf(1,3), of "''sim.more''" "JObj 18 []"]
  note new_removed = new [THEN conjunct1, symmetric]
  note new_result = new [THEN conjunct2, THEN conjunct1, rule_format]
  note new_unique = new [THEN conjunct2, THEN conjunct2, THEN conjunct2, THEN conjunct1,
      THEN mp, THEN spec, THEN mp]
  note new_added = new [THEN conjunct2, THEN conjunct2, THEN conjunct2, THEN conjunct2,
      rule_format]
  note empty_removed = empty [THEN conjunct1, symmetric]
  note empty_result = empty [THEN conjunct2, THEN conjunct1, rule_format]
  have diff: "set (identifiers exampleOld) - set (identifiers exampleNew) = {''sim.gone''}"
    unfolding new_removed removed by simp
  have "set (identifiers exampleOld) - set (identifiers exampleNew) \<noteq> {}"
    unfolding diff by simp
  from new_result [OF this]
  have result: "compareAPIs exampleOld exampleNew =
     Inr [\<lparr>message = ''Second API missing elements:'' @ nl_tab @ ''sim.gone''\<rparr>,
          \<lparr>message = ''sim.a.phetioTypeName changed from T1 to T2''\<rparr>,
          \<lparr>message = ''sim.a.phetioState changed from true to false''\<rparr>,
          \<lparr>message = ''sim.a.phetioReadOnly changed from false to true''\<rparr>,
          \<lparr>message = ''sim.c.phetioEventType changed from undefined to MODEL''\<rparr>,
          \<lparr>message = ''sim.c.phetioState changed from undefined to false''\<rparr>]"
    by (simp add: steps removed)
  have "set (identifiers exampleOld) - set (identifiers emptyAPI) \<noteq> {}"
    unfolding empty_removed removed by simp
  from empty_result [OF this]
  have all_removed: "compareAPIs exampleOld emptyAPI =
     Inr [\<lparr>message = ''Second API missing elements:'' @ nl_tab @ ''sim.a'' @ nl_tab @ ''sim.b''
            @ nl_tab @ ''sim.c'' @ nl_tab @ ''sim.d'' @ nl_tab @ ''sim.gone''\<rparr>]"
    by (simp add: removed shared)
  have lines: "list_all (\<lambda>shared. CHR 0x0A \<notin> set shared)
      (sharedIDs (identifiers exampleOld) (identifiers exampleNew))"
    unfolding shared by simp
  then have "\<forall>shared \<in> set (sharedIDs (identifiers exampleOld) (identifiers exampleNew)).
      CHR 0x0A \<notin> set shared"
    by (simp add: list_all_iff)
  from new_unique [OF this steps]
  have unique: "list_all (\<lambda>p. message p \<noteq> ''Second API missing elements:'' @ nl_tab @ ''sim.gone'')
     [\<lparr>message = ''sim.a.phetioTypeName changed from T1 to T2''\<rparr>,
      \<lparr>message = ''sim.a.phetioState changed from true to false''\<rparr>,
      \<lparr>message = ''sim.a.phetioReadOnly changed from false to true''\<rparr>,
      \<lparr>message = ''sim.c.phetioEventType changed from undefined to MODEL''\<rparr>,
      \<lparr>message = ''sim.c.phetioState changed from undefined to false''\<rparr>]"
    unfolding list_all_iff removed by simp
  from new_added [OF more(1)]
  have added: "compareAPIs exampleOld (setElement exampleNew ''sim.more'' (JObj 18 [])) =
     compareAPIs exampleOld exampleNew" .
  from wf primitive diff result all_removed lines unique more added show ?thesis
    by (intro conjI)
qed

text \<open>
  C1, as it is stated, fails: the result can hold two problems with the message of the
  removed identifiers. Below, the element that goes is named like the text of a metadata
  message, and the element that stays, whose type name changes from \<^verbatim>\<open>A\<close> to \<^verbatim>\<open>B\<close>,
  is named like the label followed by \<^verbatim>\<open>x\<close>.
\<close>

theorem removed_elements_twice_counterexample:
  "wellFormed collidingOld \<and> wellFormed collidingNew \<and>
   primitiveMetadata collidingOld \<and> primitiveMetadata collidingNew \<and>
   removedIDs (identifiers collidingOld) (identifiers collidingNew) =
     [''x.phetioTypeName changed from A to B''] \<and>
   compareAPIs collidingOld collidingNew =
     Inr [\<lparr>message = ''Second API missing elements:'' @ nl_tab
            @ join nl_tab [''x.phetioTypeName changed from A to B'']\<rparr>,
          \<lparr>message = ''Second API missing elements:'' @ nl_tab
            @ join nl_tab [''x.phetioTypeName changed from A to B'']\<rparr>]"
proof -
  have facts: "wellFormed collidingOld" "wellFormed collidingNew"
    "primitiveMetadata collidingOld" "primitiveMetadata collidingNew"
    "removedIDs (identifiers collidingOld) (identifiers collidingNew) =
       [''x.phetioTypeName changed from A to B'']"
    by code_simp+
  have "compareAPIs collidingOld collidingNew =
     Inr [\<lparr>message = ''Second API missing elements:'' @ nl_tab
            @ join nl_tab [''x.phetioTypeName changed from A to B'']\<rparr>,
          \<lparr>message = ''Second API missing elements:'' @ nl_tab
            @ join nl_tab [''x.phetioTypeName changed from A to B'']\<rparr>]"
    by code_simp
  with facts show ?thesis by (intro conjI)
qed

text \<open>
  C2: for an identifier that both well-formed descriptions have and each of the six keys
  \<^verbatim>\<open>phetioTypeName\<close>, \<^verbatim>\<open>phetioEventType\<close>, \<^verbatim>\<open>phetioPlayback\<close>,
  \<^verbatim>\<open>phetioDynamicElement\<close>, \<^verbatim>\<open>phetioIsArchetype\<close>, \<^verbatim>\<open>phetioArchetypePhetioID\<close>, the call
  of \<^verbatim>\<open>reportDifferences\<close> for that key pushes nothing when the old and the new value
  are \<^verbatim>\<open>===\<close>, and otherwise builds the message
  \<^verbatim>\<open><identifier>.<key> changed from <old> to <new>\<close> and pushes it. So, for values that
  can be converted to a string, as every primitive value can, a problem is pushed exactly
  when the values are not \<^verbatim>\<open>===\<close> (one of them may be \<^verbatim>\<open>undefined\<close>). When the
  comparator returns and the values are not \<^verbatim>\<open>===\<close>, the problem is in its result.
\<close>

theorem nondirectional_change_reported:
  assumes "wellFormed oldAPI" "wellFormed newAPI"
    and "phetioID \<in> set (identifiers oldAPI)" "phetioID \<in> set (identifiers newAPI)"
    and "metadataKey \<in> set nondirectionalKeys"
  shows "reportDifferences oldAPI newAPI phetioID metadataKey JUndefined problems =
      (if strict_eq (metadata oldAPI phetioID metadataKey) (metadata newAPI phetioID metadataKey)
       then Inr problems
       else andThen (ToString (metadata oldAPI phetioID metadataKey)) (\<lambda>oldText.
            andThen (ToString (metadata newAPI phetioID metadataKey)) (\<lambda>newText.
              Inr (problems @
                [\<lparr>message = phetioID @ ''.'' @ metadataKey @ '' changed from '' @ oldText
                    @ '' to '' @ newText\<rparr>])))) \<and>
    (\<not> unprintable (metadata oldAPI phetioID metadataKey) \<and>
     \<not> unprintable (metadata newAPI phetioID metadataKey) \<longrightarrow>
       ((\<exists>p. reportDifferences oldAPI newAPI phetioID metadataKey JUndefined problems =
               Inr (problems @ [p])) \<longleftrightarrow>
        \<not> strict_eq (metadata oldAPI phetioID metadataKey)
            (metadata newAPI phetioID metadataKey))) \<and>
    (compareAPIs oldAPI newAPI = Inr result \<and>
     \<not> strict_eq (metadata oldAPI phetioID metadataKey) (metadata newAPI phetioID metadataKey) \<longrightarrow>
       (\<exists>oldText newText.
          ToString (metadata oldAPI phetioID metadataKey) = Inr oldText \<and>
          ToString (metadata newAPI phetioID metadataKey) = Inr newText \<and>
          \<lparr>message = phetioID @ ''.'' @ metadataKey @ '' changed from '' @ oldText
              @ '' to '' @ newText\<rparr> \<in> set result))"
proof (intro conjI impI)
  let ?old = "metadata oldAPI phetioID metadataKey"
  let ?new = "metadata newAPI phetioID metadataKey"
  have call: "reportDifferences oldAPI newAPI phetioID metadataKey JUndefined problems =
      (if strict_eq ?old ?new then Inr problems
       else andThen (ToString ?old) (\<lambda>oldText. andThen (ToString ?new) (\<lambda>newText.
              Inr (problems @
                [\<lparr>message = phetioID @ ''.'' @ metadataKey @ '' changed from '' @ oldText
                    @ '' to '' @ newText\<rparr>]))))"
    by (simp add: reportDifferences_shared [OF assms(1-4)] reported_def checkFires_def
        changed_message_def andThen_assoc)
  then show "reportDifferences oldAPI newAPI phetioID metadataKey JUndefined problems =
      (if strict_eq ?old ?new then Inr problems
       else andThen (ToString ?old) (\<lambda>oldText. andThen (ToString ?new) (\<lambda>newText.
              Inr (problems @
                [\<lparr>message = phetioID @ ''.'' @ metadataKey @ '' changed from '' @ oldText
                    @ '' to '' @ newText\<rparr>]))))" .
  {
    assume "\<not> unprintable ?old \<and> \<not> unprintable ?new"
    then obtain oldText newText where "ToString ?old = Inr oldText" "ToString ?new = Inr newText"
      using not_throws_iff [of "ToString ?old"] not_throws_iff [of "ToString ?new"]
      by (auto simp: ToString_throws_iff)
    then show "(\<exists>p. reportDifferences oldAPI newAPI phetioID metadataKey JUndefined problems =
               Inr (problems @ [p])) \<longleftrightarrow> \<not> strict_eq ?old ?new"
      by (simp add: call)
  }
  {
    assume "compareAPIs oldAPI newAPI = Inr result \<and> \<not> strict_eq ?old ?new"
    then have result: "compareAPIs oldAPI newAPI = Inr result" and changed: "\<not> strict_eq ?old ?new"
      by simp_all
    from assms(5) have check: "(metadataKey, JUndefined) \<in> set metadataChecks"
      by (auto simp: nondirectionalKeys_def metadataChecks_def)
    from reported_in_result [OF assms(1-4) check result] obtain found where
      found: "reported phetioID metadataKey JUndefined ?old ?new = Inr found"
      and sub: "set found \<subseteq> set result"
      by blast
    from found changed obtain oldText newText where
      texts: "ToString ?old = Inr oldText" "ToString ?new = Inr newText"
      and "found = [\<lparr>message = phetioID @ ''.'' @ metadataKey @ '' changed from '' @ oldText
              @ '' to '' @ newText\<rparr>]"
      by (cases "ToString ?old"; cases "ToString ?new")
        (auto simp: reported_def checkFires_def changed_message_def)
    with sub show "\<exists>oldText newText.
          ToString ?old = Inr oldText \<and> ToString ?new = Inr newText \<and>
          \<lparr>message = phetioID @ ''.'' @ metadataKey @ '' changed from '' @ oldText
              @ '' to '' @ newText\<rparr> \<in> set result"
      by auto
  }
qed

theorem nondirectional_change_reported_witness:
  "wellFormed valuesOld \<and> wellFormed valuesNew \<and>
   ''sim.v'' \<in> set (identifiers valuesOld) \<and> ''sim.v'' \<in> set (identifiers valuesNew) \<and>
   list_all (\<lambda>metadataKey. metadataKey \<in> set nondirectionalKeys)
     [''phetioTypeName'', ''phetioEventType'', ''phetioPlayback'', ''phetioDynamicElement'',
      ''phetioIsArchetype'', ''phetioArchetypePhetioID''] \<and>
   reportDifferences valuesOld valuesNew ''sim.v'' ''phetioTypeName'' JUndefined [] =
     Inr [\<lparr>message = ''sim.v.phetioTypeName changed from T1 to T2''\<rparr>] \<and>
   reportDifferences valuesOld valuesNew ''sim.v'' ''phetioEventType'' JUndefined [] =
     Inr [\<lparr>message = ''sim.v.phetioEventType changed from undefined to MODEL''\<rparr>] \<and>
   reportDifferences valuesOld valuesNew ''sim.v'' ''phetioPlayback'' JUndefined [] =
     Inr [\<lparr>message = ''sim.v.phetioPlayback changed from true to false''\<rparr>] \<and>
   reportDifferences valuesOld valuesNew ''sim.v'' ''phetioDynamicElement'' JUndefined [] =
     Inr [\<lparr>message = ''sim.v.phetioDynamicElement changed from false to null''\<rparr>] \<and>
   reportDifferences valuesOld valuesNew ''sim.v'' ''phetioIsArchetype'' JUndefined [] =
     Inr [\<lparr>message = ''sim.v.phetioIsArchetype changed from null to [object Object]''\<rparr>] \<and>
   reportDifferences valuesOld valuesNew ''sim.v'' ''phetioArchetypePhetioID'' JUndefined [] =
     Inr [\<lparr>message = ''sim.v.phetioArchetypePhetioID changed from [object Object] to sim.w''\<rparr>] \<and>
   reportDifferences valuesOld valuesOld ''sim.v'' ''phetioArchetypePhetioID'' JUndefined [] =
     Inr [] \<and>
   wellFormed identityOld \<and> wellFormed identityNew \<and>
   ''sim.v'' \<in> set (identifiers identityOld) \<and> ''sim.v'' \<in> set (identifiers identityNew) \<and>
   reportDifferences identityOld identityNew ''sim.v'' ''phetioTypeName'' JUndefined [] =
     Inr [\<lparr>message = ''sim.v.phetioTypeName changed from [object Object] to [object Object]''\<rparr>] \<and>
   reportDifferences identityOld identityNew ''sim.v'' ''phetioEventType'' JUndefined [] =
     Inr [\<lparr>message = ''sim.v.phetioEventType changed from null to undefined''\<rparr>] \<and>
   wellFormed unprintableOld \<and> wellFormed unprintableNew \<and>
   reportDifferences unprintableOld unprintableNew ''sim.a'' ''phetioTypeName'' JUndefined [] =
     Inl TypeError \<and>
   (\<exists>result. compareAPIs valuesOld valuesNew = Inr result \<and>
      \<lparr>message = ''sim.v.phetioIsArchetype changed from null to [object Object]''\<rparr>
        \<in> set result)"
proof -
  have wf: "wellFormed valuesOld" "wellFormed valuesNew" by code_simp+
  have bad: "wellFormed unprintableOld" "wellFormed unprintableNew" by code_simp+
  have two: "wellFormed identityOld" "wellFormed identityNew" by code_simp+
  have v: "''sim.v'' \<in> set (identifiers valuesOld)" "''sim.v'' \<in> set (identifiers valuesNew)"
    by code_simp+
  have w: "''sim.v'' \<in> set (identifiers identityOld)" "''sim.v'' \<in> set (identifiers identityNew)"
    by code_simp+
  have objects: "metadata identityOld ''sim.v'' ''phetioTypeName'' = JObj 104 []"
    "metadata identityNew ''sim.v'' ''phetioTypeName'' = JObj 114 []"
    "metadata identityOld ''sim.v'' ''phetioEventType'' = JNull"
    "metadata identityNew ''sim.v'' ''phetioEventType'' = JUndefined"
    by code_simp+
  have a: "''sim.a'' \<in> set (identifiers unprintableOld)"
    "''sim.a'' \<in> set (identifiers unprintableNew)"
    by code_simp+
  have keys: "''phetioTypeName'' \<in> set nondirectionalKeys"
    "''phetioEventType'' \<in> set nondirectionalKeys"
    "''phetioPlayback'' \<in> set nondirectionalKeys"
    "''phetioDynamicElement'' \<in> set nondirectionalKeys"
    "''phetioIsArchetype'' \<in> set nondirectionalKeys"
    "''phetioArchetypePhetioID'' \<in> set nondirectionalKeys"
    by code_simp+
  have old: "metadata valuesOld ''sim.v'' ''phetioTypeName'' = JStr ''T1''"
    "metadata valuesOld ''sim.v'' ''phetioEventType'' = JUndefined"
    "metadata valuesOld ''sim.v'' ''phetioPlayback'' = JBool True"
    "metadata valuesOld ''sim.v'' ''phetioDynamicElement'' = JBool False"
    "metadata valuesOld ''sim.v'' ''phetioIsArchetype'' = JNull"
    "metadata valuesOld ''sim.v'' ''phetioArchetypePhetioID'' = JObj 74 []"
    by code_simp+
  have new: "metadata valuesNew ''sim.v'' ''phetioTypeName'' = JStr ''T2''"
    "metadata valuesNew ''sim.v'' ''phetioEventType'' = JStr ''MODEL''"
    "metadata valuesNew ''sim.v'' ''phetioPlayback'' = JBool False"
    "metadata valuesNew ''sim.v'' ''phetioDynamicElement'' = JNull"
    "metadata valuesNew ''sim.v'' ''phetioIsArchetype'' = JObj 84 [(''name'', JStr ''a'')]"
    "metadata valuesNew ''sim.v'' ''phetioArchetypePhetioID'' = JStr ''sim.w''"
    by code_simp+
  have unprintable: "metadata unprintableOld ''sim.a'' ''phetioTypeName'' =
      JObj 94 [(''toString'', JNull)]"
    "metadata unprintableNew ''sim.a'' ''phetioTypeName'' = JStr ''T''"
    by code_simp+
  note call = nondirectional_change_reported [THEN conjunct1]
  have calls:
    "reportDifferences valuesOld valuesNew ''sim.v'' ''phetioTypeName'' JUndefined [] =
       Inr [\<lparr>message = ''sim.v.phetioTypeName changed from T1 to T2''\<rparr>]"
    "reportDifferences valuesOld valuesNew ''sim.v'' ''phetioEventType'' JUndefined [] =
       Inr [\<lparr>message = ''sim.v.phetioEventType changed from undefined to MODEL''\<rparr>]"
    "reportDifferences valuesOld valuesNew ''sim.v'' ''phetioPlayback'' JUndefined [] =
       Inr [\<lparr>message = ''sim.v.phetioPlayback changed from true to false''\<rparr>]"
    "reportDifferences valuesOld valuesNew ''sim.v'' ''phetioDynamicElement'' JUndefined [] =
       Inr [\<lparr>message = ''sim.v.phetioDynamicElement changed from false to null''\<rparr>]"
    "reportDifferences valuesOld valuesNew ''sim.v'' ''phetioIsArchetype'' JUndefined [] =
       Inr [\<lparr>message = ''sim.v.phetioIsArchetype changed from null to [object Object]''\<rparr>]"
    "reportDifferences valuesOld valuesNew ''sim.v'' ''phetioArchetypePhetioID'' JUndefined [] =
       Inr [\<lparr>message = ''sim.v.phetioArchetypePhetioID changed from [object Object] to sim.w''\<rparr>]"
    unfolding call [OF wf v keys(1)] call [OF wf v keys(2)] call [OF wf v keys(3)]
      call [OF wf v keys(4)] call [OF wf v keys(5)] call [OF wf v keys(6)]
    by (simp_all add: old new)
  have same: "reportDifferences valuesOld valuesOld ''sim.v'' ''phetioArchetypePhetioID''
      JUndefined [] = Inr []"
    unfolding call [OF wf(1) wf(1) v(1) v(1) keys(6)] by (simp add: old)
  have throws: "reportDifferences unprintableOld unprintableNew ''sim.a'' ''phetioTypeName''
      JUndefined [] = Inl TypeError"
    unfolding call [OF bad a keys(1)] by (simp add: unprintable)
  have identity:
    "reportDifferences identityOld identityNew ''sim.v'' ''phetioTypeName'' JUndefined [] =
       Inr [\<lparr>message = ''sim.v.phetioTypeName changed from [object Object] to [object Object]''\<rparr>]"
    "reportDifferences identityOld identityNew ''sim.v'' ''phetioEventType'' JUndefined [] =
       Inr [\<lparr>message = ''sim.v.phetioEventType changed from null to undefined''\<rparr>]"
    unfolding call [OF two w keys(1)] call [OF two w keys(2)]
    by (simp_all add: objects)
  have result: "compareAPIs valuesOld valuesNew =
     Inr [\<lparr>message = ''sim.v.phetioTypeName changed from T1 to T2''\<rparr>,
          \<lparr>message = ''sim.v.phetioEventType changed from undefined to MODEL''\<rparr>,
          \<lparr>message = ''sim.v.phetioPlayback changed from true to false''\<rparr>,
          \<lparr>message = ''sim.v.phetioDynamicElement changed from false to null''\<rparr>,
          \<lparr>message = ''sim.v.phetioIsArchetype changed from null to [object Object]''\<rparr>,
          \<lparr>message = ''sim.v.phetioArchetypePhetioID changed from [object Object] to sim.w''\<rparr>]"
    by code_simp
  have changed: "\<not> strict_eq (metadata valuesOld ''sim.v'' ''phetioIsArchetype'')
      (metadata valuesNew ''sim.v'' ''phetioIsArchetype'')"
    by (simp add: old new)
  from nondirectional_change_reported [OF wf v keys(5), THEN conjunct2, THEN conjunct2,
      rule_format, OF conjI, OF result changed]
  have member: "\<exists>result. compareAPIs valuesOld valuesNew = Inr result \<and>
      \<lparr>message = ''sim.v.phetioIsArchetype changed from null to [object Object]''\<rparr>
        \<in> set result"
    unfolding result by (auto simp: old new)
  have listed: "list_all (\<lambda>metadataKey. metadataKey \<in> set nondirectionalKeys)
     [''phetioTypeName'', ''phetioEventType'', ''phetioPlayback'', ''phetioDynamicElement'',
      ''phetioIsArchetype'', ''phetioArchetypePhetioID'']"
    using keys by simp
  from wf v listed calls same two w identity bad throws member show ?thesis
    by (intro conjI)
qed



text \<open>
  C4: for every well-formed API description, comparing it against itself returns the
  empty sequence of problems.
\<close>

theorem compare_reflexive:
  assumes "wellFormed api"
  shows "compareAPIs api api = Inr []"
  using assms by (rule compareAPIs_same)

theorem compare_reflexive_witness:
  "wellFormed exampleOld \<and> compareAPIs exampleOld exampleOld = Inr []"
proof -
  have "wellFormed exampleOld" by code_simp
  then show ?thesis using compare_reflexive [of exampleOld] by simp
qed

text \<open>
  C5: when two well-formed descriptions enumerate the same set of identifiers, in
  whatever order, the first block pushes no missing-elements problem, and the
  comparator gives what the metadata checks of the first description's identifiers
  give, one after the other.
\<close>

theorem same_identifiers_any_order:
  assumes "wellFormed api1" "wellFormed api2"
    and "set (identifiers api1) = set (identifiers api2)"
  shows "checkMissing (identifiers api1) (identifiers api2) problems = problems \<and>
     compareAPIs api1 api2 =
       collect (map (elementProblems api1 api2) (identifiers api1))"
  using assms
  by (simp add: compareAPIs_wellFormed checkMissing_eq missingProblems_subset sharedIDs_subset
      andThen_Inr)

theorem same_identifiers_any_order_witness:
  "wellFormed exampleOld \<and> wellFormed exampleReordered \<and>
   identifiers exampleOld \<noteq> identifiers exampleReordered \<and>
   set (identifiers exampleOld) = set (identifiers exampleReordered) \<and>
   checkMissing (identifiers exampleOld) (identifiers exampleReordered) [] = [] \<and>
   compareAPIs exampleOld exampleReordered = Inr []"
proof -
  have wf: "wellFormed exampleOld" "wellFormed exampleReordered" by code_simp+
  have ids: "identifiers exampleOld = [''sim.a'', ''sim.b'', ''sim.c'', ''sim.d'', ''sim.gone'']"
    "identifiers exampleReordered = [''sim.gone'', ''sim.d'', ''sim.c'', ''sim.b'', ''sim.a'']"
    by code_simp+
  have same: "set (identifiers exampleOld) = set (identifiers exampleReordered)"
    by (auto simp: ids)
  have none: "elementProblems exampleOld exampleReordered ''sim.a'' = Inr []"
    "elementProblems exampleOld exampleReordered ''sim.b'' = Inr []"
    "elementProblems exampleOld exampleReordered ''sim.c'' = Inr []"
    "elementProblems exampleOld exampleReordered ''sim.d'' = Inr []"
    "elementProblems exampleOld exampleReordered ''sim.gone'' = Inr []"
    by code_simp+
  show ?thesis
    using wf same same_identifiers_any_order [OF wf same, of "[]"]
    by (simp add: ids none)
qed

text \<open>
  C6: the keys \<^verbatim>\<open>phetioFeatured\<close>, \<^verbatim>\<open>phetioStudioControl\<close> and
  \<^verbatim>\<open>phetioHighFrequency\<close> never contribute to the result. Setting one of them to any
  value in an element of the old or of the new description leaves the result as it is;
  so a well-formed description compared with a copy in which only such a value differs
  gives no problem.
\<close>

theorem excluded_keys_ignored:
  assumes "k \<in> set excludedKeys"
  shows "compareAPIs (setMetadata oldAPI phetioID k x) newAPI = compareAPIs oldAPI newAPI \<and>
    compareAPIs oldAPI (setMetadata newAPI phetioID k y) = compareAPIs oldAPI newAPI \<and>
    (wellFormed oldAPI \<longrightarrow> compareAPIs oldAPI (setMetadata oldAPI phetioID k y) = Inr [])"
proof (intro conjI impI)
  show "compareAPIs (setMetadata oldAPI phetioID k x) newAPI = compareAPIs oldAPI newAPI"
    by (rule compareAPIs_setMetadata [OF assms, where phetioID = phetioID and x = x and y = y])
      simp_all
  show right: "compareAPIs oldAPI (setMetadata newAPI phetioID k y) = compareAPIs oldAPI newAPI"
    for newAPI
    by (rule compareAPIs_setMetadata [OF assms, where phetioID = phetioID and x = x and y = y])
      simp_all
  assume "wellFormed oldAPI"
  then show "compareAPIs oldAPI (setMetadata oldAPI phetioID k y) = Inr []"
    by (simp add: right compareAPIs_same)
qed

theorem excluded_keys_ignored_witness:
  "''phetioFeatured'' \<in> set excludedKeys \<and> wellFormed exampleOld \<and>
   metadata exampleOld ''sim.a'' ''phetioFeatured'' = JBool True \<and>
   metadata (setMetadata exampleOld ''sim.a'' ''phetioFeatured'' (JBool False))
     ''sim.a'' ''phetioFeatured'' = JBool False \<and>
   compareAPIs exampleOld (setMetadata exampleOld ''sim.a'' ''phetioFeatured'' (JBool False)) =
     Inr [] \<and>
   compareAPIs (setMetadata exampleOld ''sim.a'' ''phetioFeatured'' JUndefined) exampleNew =
     compareAPIs exampleOld exampleNew \<and>
   compareAPIs exampleOld (setMetadata exampleNew ''sim.a'' ''phetioFeatured'' (JBool True)) =
     compareAPIs exampleOld exampleNew"
proof -
  have key: "''phetioFeatured'' \<in> set excludedKeys" by code_simp
  have wf: "wellFormed exampleOld" by code_simp
  have vals: "metadata exampleOld ''sim.a'' ''phetioFeatured'' = JBool True"
    "metadata (setMetadata exampleOld ''sim.a'' ''phetioFeatured'' (JBool False))
       ''sim.a'' ''phetioFeatured'' = JBool False"
    by code_simp+
  note new = excluded_keys_ignored [OF key, of exampleOld "''sim.a''" JUndefined exampleNew
      "JBool True"]
  note same = excluded_keys_ignored [OF key, of exampleOld "''sim.a''" JUndefined exampleOld
      "JBool False"]
  from wf vals key new [THEN conjunct1] new [THEN conjunct2, THEN conjunct1]
    same [THEN conjunct2, THEN conjunct2, rule_format, OF wf]
  show ?thesis
    by (intro conjI)
qed

text \<open>
  C7: for two well-formed descriptions the comparator goes through the identifiers that
  both descriptions have, in the order in which the first description enumerates them,
  and for each through the keys \<^verbatim>\<open>phetioTypeName\<close>, \<^verbatim>\<open>phetioEventType\<close>,
  \<^verbatim>\<open>phetioPlayback\<close>, \<^verbatim>\<open>phetioDynamicElement\<close>, \<^verbatim>\<open>phetioIsArchetype\<close>,
  \<^verbatim>\<open>phetioArchetypePhetioID\<close>, \<^verbatim>\<open>phetioState\<close>, \<^verbatim>\<open>phetioReadOnly\<close> in this order.
  The sequence it returns is the missing-elements problem (if any) followed by the
  metadata problems in the order of these checks. It returns when every metadata value
  is primitive.
\<close>

theorem problems_in_check_order:
  assumes "wellFormed api1" "wellFormed api2"
  shows "compareAPIs api1 api2 =
     andThen
       (collect (map (\<lambda>phetioID.
            collect
              [reported phetioID ''phetioTypeName'' JUndefined
                   (metadata api1 phetioID ''phetioTypeName'') (metadata api2 phetioID ''phetioTypeName''),
                 reported phetioID ''phetioEventType'' JUndefined
                   (metadata api1 phetioID ''phetioEventType'') (metadata api2 phetioID ''phetioEventType''),
                 reported phetioID ''phetioPlayback'' JUndefined
                   (metadata api1 phetioID ''phetioPlayback'') (metadata api2 phetioID ''phetioPlayback''),
                 reported phetioID ''phetioDynamicElement'' JUndefined
                   (metadata api1 phetioID ''phetioDynamicElement'') (metadata api2 phetioID ''phetioDynamicElement''),
                 reported phetioID ''phetioIsArchetype'' JUndefined
                   (metadata api1 phetioID ''phetioIsArchetype'') (metadata api2 phetioID ''phetioIsArchetype''),
                 reported phetioID ''phetioArchetypePhetioID'' JUndefined
                   (metadata api1 phetioID ''phetioArchetypePhetioID'') (metadata api2 phetioID ''phetioArchetypePhetioID''),
                 reported phetioID ''phetioState'' (JBool False)
                   (metadata api1 phetioID ''phetioState'') (metadata api2 phetioID ''phetioState''),
                 reported phetioID ''phetioReadOnly'' (JBool True)
                   (metadata api1 phetioID ''phetioReadOnly'') (metadata api2 phetioID ''phetioReadOnly'')])
          (sharedIDs (identifiers api1) (identifiers api2))))
       (\<lambda>found. Inr (missingProblems (identifiers api1) (identifiers api2) @ found)) \<and>
    (primitiveMetadata api1 \<and> primitiveMetadata api2 \<longrightarrow>
       (\<exists>result. compareAPIs api1 api2 = Inr result))"
proof (intro conjI impI)
  have "elementProblems api1 api2 = (\<lambda>phetioID.
            collect
              [reported phetioID ''phetioTypeName'' JUndefined
                   (metadata api1 phetioID ''phetioTypeName'') (metadata api2 phetioID ''phetioTypeName''),
                 reported phetioID ''phetioEventType'' JUndefined
                   (metadata api1 phetioID ''phetioEventType'') (metadata api2 phetioID ''phetioEventType''),
                 reported phetioID ''phetioPlayback'' JUndefined
                   (metadata api1 phetioID ''phetioPlayback'') (metadata api2 phetioID ''phetioPlayback''),
                 reported phetioID ''phetioDynamicElement'' JUndefined
                   (metadata api1 phetioID ''phetioDynamicElement'') (metadata api2 phetioID ''phetioDynamicElement''),
                 reported phetioID ''phetioIsArchetype'' JUndefined
                   (metadata api1 phetioID ''phetioIsArchetype'') (metadata api2 phetioID ''phetioIsArchetype''),
                 reported phetioID ''phetioArchetypePhetioID'' JUndefined
                   (metadata api1 phetioID ''phetioArchetypePhetioID'') (metadata api2 phetioID ''phetioArchetypePhetioID''),
                 reported phetioID ''phetioState'' (JBool False)
                   (metadata api1 phetioID ''phetioState'') (metadata api2 phetioID ''phetioState''),
                 reported phetioID ''phetioReadOnly'' (JBool True)
                   (metadata api1 phetioID ''phetioReadOnly'') (metadata api2 phetioID ''phetioReadOnly'')])"
    by (rule ext) (simp add: elementProblems_def metadataChecks_def)
  with compareAPIs_wellFormed [OF assms] show "compareAPIs api1 api2 =
     andThen
       (collect (map (\<lambda>phetioID.
            collect
              [reported phetioID ''phetioTypeName'' JUndefined
                   (metadata api1 phetioID ''phetioTypeName'') (metadata api2 phetioID ''phetioTypeName''),
                 reported phetioID ''phetioEventType'' JUndefined
                   (metadata api1 phetioID ''phetioEventType'') (metadata api2 phetioID ''phetioEventType''),
                 reported phetioID ''phetioPlayback'' JUndefined
                   (metadata api1 phetioID ''phetioPlayback'') (metadata api2 phetioID ''phetioPlayback''),
                 reported phetioID ''phetioDynamicElement'' JUndefined
                   (metadata api1 phetioID ''phetioDynamicElement'') (metadata api2 phetioID ''phetioDynamicElement''),
                 reported phetioID ''phetioIsArchetype'' JUndefined
                   (metadata api1 phetioID ''phetioIsArchetype'') (metadata api2 phetioID ''phetioIsArchetype''),
                 reported phetioID ''phetioArchetypePhetioID'' JUndefined
                   (metadata api1 phetioID ''phetioArchetypePhetioID'') (metadata api2 phetioID ''phetioArchetypePhetioID''),
                 reported phetioID ''phetioState'' (JBool False)
                   (metadata api1 phetioID ''phetioState'') (metadata api2 phetioID ''phetioState''),
                 reported phetioID ''phetioReadOnly'' (JBool True)
                   (metadata api1 phetioID ''phetioReadOnly'') (metadata api2 phetioID ''phetioReadOnly'')])
          (sharedIDs (identifiers api1) (identifiers api2))))
       (\<lambda>found. Inr (missingProblems (identifiers api1) (identifiers api2) @ found))"
    by simp
next
  assume "primitiveMetadata api1 \<and> primitiveMetadata api2"
  then obtain found where "collect (map (elementProblems api1 api2)
      (sharedIDs (identifiers api1) (identifiers api2))) = Inr found"
    using compareAPIs_primitive by blast
  then show "\<exists>result. compareAPIs api1 api2 = Inr result"
    by (simp add: compareAPIs_wellFormed [OF assms])
qed

theorem problems_in_check_order_witness:
  "wellFormed exampleOld \<and> wellFormed exampleNew \<and>
   primitiveMetadata exampleOld \<and> primitiveMetadata exampleNew \<and>
   compareAPIs exampleOld exampleNew =
     Inr [\<lparr>message = ''Second API missing elements:'' @ nl_tab @ ''sim.gone''\<rparr>,
          \<lparr>message = ''sim.a.phetioTypeName changed from T1 to T2''\<rparr>,
          \<lparr>message = ''sim.a.phetioState changed from true to false''\<rparr>,
          \<lparr>message = ''sim.a.phetioReadOnly changed from false to true''\<rparr>,
          \<lparr>message = ''sim.c.phetioEventType changed from undefined to MODEL''\<rparr>,
          \<lparr>message = ''sim.c.phetioState changed from undefined to false''\<rparr>] \<and>
   wellFormed valuesOld \<and> wellFormed valuesNew \<and>
   compareAPIs valuesOld valuesNew =
     Inr [\<lparr>message = ''sim.v.phetioTypeName changed from T1 to T2''\<rparr>,
          \<lparr>message = ''sim.v.phetioEventType changed from undefined to MODEL''\<rparr>,
          \<lparr>message = ''sim.v.phetioPlayback changed from true to false''\<rparr>,
          \<lparr>message = ''sim.v.phetioDynamicElement changed from false to null''\<rparr>,
          \<lparr>message = ''sim.v.phetioIsArchetype changed from null to [object Object]''\<rparr>,
          \<lparr>message = ''sim.v.phetioArchetypePhetioID changed from [object Object] to sim.w''\<rparr>] \<and>
   wellFormed unprintableOld \<and> wellFormed unprintableNew \<and>
   compareAPIs unprintableOld unprintableNew = Inl TypeError"
proof -
  have wf: "wellFormed exampleOld" "wellFormed exampleNew" by code_simp+
  have primitive: "primitiveMetadata exampleOld" "primitiveMetadata exampleNew" by code_simp+
  have kinds: "wellFormed valuesOld" "wellFormed valuesNew" by code_simp+
  have bad: "wellFormed unprintableOld" "wellFormed unprintableNew" by code_simp+
  have ids: "identifiers exampleOld = [''sim.a'', ''sim.b'', ''sim.c'', ''sim.d'', ''sim.gone'']"
    "identifiers exampleNew = [''sim.b'', ''sim.a'', ''sim.c'', ''sim.d'', ''sim.added'']"
    "identifiers valuesOld = [''sim.v'']" "identifiers valuesNew = [''sim.v'']"
    "identifiers unprintableOld = [''sim.a'']" "identifiers unprintableNew = [''sim.a'']"
    by code_simp+
  note evaluate = missingProblems_def removedIDs_def sharedIDs_def reported_def checkFires_def
    missing_message_def changed_message_def metadata_def metadata_value_def
  have example: "compareAPIs exampleOld exampleNew =
     Inr [\<lparr>message = ''Second API missing elements:'' @ nl_tab @ ''sim.gone''\<rparr>,
          \<lparr>message = ''sim.a.phetioTypeName changed from T1 to T2''\<rparr>,
          \<lparr>message = ''sim.a.phetioState changed from true to false''\<rparr>,
          \<lparr>message = ''sim.a.phetioReadOnly changed from false to true''\<rparr>,
          \<lparr>message = ''sim.c.phetioEventType changed from undefined to MODEL''\<rparr>,
          \<lparr>message = ''sim.c.phetioState changed from undefined to false''\<rparr>]"
    unfolding problems_in_check_order [OF wf, THEN conjunct1] ids
    by (simp add: evaluate exampleOld_def exampleNew_def)
  have changed: "compareAPIs valuesOld valuesNew =
     Inr [\<lparr>message = ''sim.v.phetioTypeName changed from T1 to T2''\<rparr>,
          \<lparr>message = ''sim.v.phetioEventType changed from undefined to MODEL''\<rparr>,
          \<lparr>message = ''sim.v.phetioPlayback changed from true to false''\<rparr>,
          \<lparr>message = ''sim.v.phetioDynamicElement changed from false to null''\<rparr>,
          \<lparr>message = ''sim.v.phetioIsArchetype changed from null to [object Object]''\<rparr>,
          \<lparr>message = ''sim.v.phetioArchetypePhetioID changed from [object Object] to sim.w''\<rparr>]"
    unfolding problems_in_check_order [OF kinds, THEN conjunct1] ids
    by (simp add: evaluate valuesOld_def valuesNew_def)
  have throws: "compareAPIs unprintableOld unprintableNew = Inl TypeError"
    unfolding problems_in_check_order [OF bad, THEN conjunct1] ids
    by (simp add: evaluate unprintableOld_def unprintableNew_def)
  from wf primitive example kinds changed bad throws show ?thesis
    by (intro conjI)
qed




text \<open>
  C9: the guard \<^verbatim>\<open>!_.isEqual( elements1, elements2 )\<close> is a pure optimization. For
  every pair of inputs the comparator returns (or throws) what the variant without the
  guard does, and the first block pushes the missing-elements problem exactly when the
  set of the first description's identifiers minus the second's is not empty.
\<close>

theorem guard_is_optimization:
  "compareAPIs api1 api2 = compareAPIs_unguarded api1 api2 \<and>
   (checkMissing elements1 elements2 problems =
      (if set elements1 - set elements2 = {} then problems
       else problems @ [\<lparr>message = missing_message (removedIDs elements1 elements2)\<rparr>]))"
proof
  show "compareAPIs api1 api2 = compareAPIs_unguarded api1 api2"
    by (simp add: compareAPIs_def compareAPIs_unguarded_def checkMissing_eq
        checkMissing_unguarded_eq)
  have "removedIDs elements1 elements2 = [] \<longleftrightarrow> set elements1 - set elements2 = {}"
    by (auto simp: removedIDs_empty_iff)
  then show "checkMissing elements1 elements2 problems =
      (if set elements1 - set elements2 = {} then problems
       else problems @ [\<lparr>message = missing_message (removedIDs elements1 elements2)\<rparr>])"
    by (simp add: checkMissing_eq missingProblems_def)
qed

text \<open>
  C10: the result depends only on the property \<^verbatim>\<open>phetioElements\<close> of each argument:
  two pairs of arguments that agree on it give the same result, whatever else the
  arguments hold.
\<close>

theorem depends_only_on_phetioElements:
  assumes "get a1 ''phetioElements'' = get b1 ''phetioElements''"
    and "get a2 ''phetioElements'' = get b2 ''phetioElements''"
  shows "compareAPIs a1 a2 = compareAPIs b1 b2"
proof -
  have value1: "metadata_value a1 = metadata_value b1"
    by (intro ext) (simp add: metadata_value_def assms)
  have value2: "metadata_value a2 = metadata_value b2"
    by (intro ext) (simp add: metadata_value_def assms)
  have "reportDifferences a1 a2 = reportDifferences b1 b2"
    by (intro ext) (simp add: reportDifferences_def value1 value2)
  then have "checkElement a1 a2 = checkElement b1 b2"
    by (intro ext) (simp add: checkElement_def)
  then show ?thesis
    by (simp add: compareAPIs_def assms)
qed

theorem depends_only_on_phetioElements_witness:
  "get exampleOld ''phetioElements'' = get (setProperty exampleOld ''phetioTypes'' JNull) ''phetioElements'' \<and>
   get exampleNew ''phetioElements'' = get (setProperty exampleNew ''version'' (JStr ''2'')) ''phetioElements'' \<and>
   compareAPIs exampleOld exampleNew =
     compareAPIs (setProperty exampleOld ''phetioTypes'' JNull) (setProperty exampleNew ''version'' (JStr ''2''))"
proof -
  have 1: "get exampleOld ''phetioElements'' = get (setProperty exampleOld ''phetioTypes'' JNull) ''phetioElements''"
    by code_simp
  have 2: "get exampleNew ''phetioElements'' = get (setProperty exampleNew ''version'' (JStr ''2'')) ''phetioElements''"
    by code_simp
  show ?thesis
    using 1 2 depends_only_on_phetioElements [OF 1 2] by simp
qed

end
